theory Spec2Isabelle
  imports Complex_Main
begin

section \<open>The in-process cache (cache.py, MemoryCache)\<close>

text \<open>
  A \<^verbatim>\<open>CacheEntry\<close> holds the stored value and the absolute expiry instant. The clock
  \<^verbatim>\<open>time.time()\<close> is read by the caller of the model and passed in as \<open>now\<close>; instants
  are of any linearly ordered type with an addition, of which nothing more is assumed
  (the source adds the time to live with Python's \<^verbatim>\<open>+\<close> on floats). The store is the
  dictionary \<^verbatim>\<open>_store\<close>; every operation runs under the lock, so it is modelled as a
  function from the store to the result and the new store.
\<close>

record ('v, 't) CacheEntry =
  entry_value :: 'v
  expires_at :: 't

type_synonym ('v, 't) store = "string \<rightharpoonup> ('v, 't) CacheEntry"

definition cache_get ::
  "('v, 't::{linorder,plus}) store \<Rightarrow> 't \<Rightarrow> string \<Rightarrow> 'v option \<times> ('v, 't) store" where
  "cache_get st now key =
     (case st key of
        None \<Rightarrow> (None, st)
      | Some entry \<Rightarrow>
          if expires_at entry < now then (None, st(key := None))
          else (Some (entry_value entry), st))"

definition cache_set ::
  "('v, 't::{linorder,plus}) store \<Rightarrow> 't \<Rightarrow> string \<Rightarrow> 'v \<Rightarrow> 't \<Rightarrow> ('v, 't) store" where
  "cache_set st now key v ttl_seconds =
     st(key \<mapsto> \<lparr>entry_value = v, expires_at = now + ttl_seconds\<rparr>)"

section \<open>Values exchanged with the planner and the workflow\<close>

text \<open>
  The plan is what \<^verbatim>\<open>json.loads\<close> returns, and payloads are dictionaries of the same
  kind, so both are values of one datatype. A dictionary is an association list in
  insertion order (the keys of a well-formed one are distinct); \<^verbatim>\<open>None\<close> is \<open>JNull\<close>.
  A finite float stands by its value. \<open>truthy\<close> is Python's truth value of such a
  value, which \<^verbatim>\<open>or\<close>, \<^verbatim>\<open>and\<close>, \<^verbatim>\<open>not\<close>, \<^verbatim>\<open>if\<close> and \<^verbatim>\<open>bool()\<close> consult.
\<close>

datatype json =
    JNull
  | JBool bool
  | JInt int
  | JFloat rat
  | JStr string
  | JArr "json list"
  | JObj "(string \<times> json) list"

type_synonym dict = "(string \<times> json) list"

fun truthy :: "json \<Rightarrow> bool" where
  "truthy JNull = False"
| "truthy (JBool b) = b"
| "truthy (JInt i) = (i \<noteq> 0)"
| "truthy (JFloat r) = (r \<noteq> 0)"
| "truthy (JStr s) = (s \<noteq> [])"
| "truthy (JArr xs) = (xs \<noteq> [])"
| "truthy (JObj kvs) = (kvs \<noteq> [])"

text \<open>\<^verbatim>\<open>d.get(k)\<close> and \<^verbatim>\<open>d.get(k, default)\<close>.\<close>

definition dict_get :: "dict \<Rightarrow> string \<Rightarrow> json" where
  "dict_get d k = (case map_of d k of None \<Rightarrow> JNull | Some v \<Rightarrow> v)"

definition dict_get_default :: "dict \<Rightarrow> string \<Rightarrow> json \<Rightarrow> json" where
  "dict_get_default d k dflt = (case map_of d k of None \<Rightarrow> dflt | Some v \<Rightarrow> v)"

text \<open>An \<^verbatim>\<open>Optional[str]\<close> argument as a value, and its truth value.\<close>

definition of_opt :: "string option \<Rightarrow> json" where
  "of_opt x = (case x of None \<Rightarrow> JNull | Some s \<Rightarrow> JStr s)"

definition truthy_opt :: "string option \<Rightarrow> bool" where
  "truthy_opt x = truthy (of_opt x)"

text \<open>
  \<^verbatim>\<open>a or b\<close> returns \<open>a\<close> when it is true and \<open>b\<close> otherwise.
\<close>

definition py_or :: "json \<Rightarrow> json \<Rightarrow> json" where
  "py_or a b = (if truthy a then a else b)"

text \<open>
  Exceptions. \<open>ValueError\<close> carries its message. \<open>AnalysisError\<close> carries the fixed
  text of its message and, for \<^verbatim>\<open>f"Analysis job failed: {error}"\<close>, the value that is
  formatted into it. \<open>TypeError\<close>, \<open>AttributeError\<close> and \<open>KeyError\<close> are what Python
  raises for an unhashable set element or a subscript on a value that has none, for a
  missing method, and for a missing key. \<open>HTTPStatusError\<close> is what
  \<^verbatim>\<open>raise_for_status\<close> raises, \<open>RemoteError\<close> what a collaborator outside this code
  raises.
\<close>

datatype exn =
    ValueError string
  | TypeError
  | AttributeError
  | AnalysisError string "json option"
  | KeyError
  | HTTPStatusError
  | RemoteError string

section \<open>The orchestration agent (agent.py)\<close>

definition ALLOWED_ACTIONS :: "string set" where
  "ALLOWED_ACTIONS = {''optimal'', ''subscriptions'', ''summary''}"

record PlannedAction =
  name :: string
  objective :: "string option"
  pricing_url :: "string option"

text \<open>
  The warnings the logger records are returned beside the result, each by its event name.
\<close>

type_synonym log = "string list"

definition parse_action_entry :: "json \<Rightarrow> PlannedAction option \<times> log" where
  "parse_action_entry entry =
     (case entry of
        JStr s \<Rightarrow>
          if s \<in> ALLOWED_ACTIONS
          then (Some \<lparr>name = s, objective = None, pricing_url = None\<rparr>, [])
          else (None, [''pricing.agent.unsupported_action''])
      | JObj d \<Rightarrow>
          (case dict_get d ''name'' of
             JStr nm \<Rightarrow>
               if nm \<notin> ALLOWED_ACTIONS
               then (None, [''pricing.agent.invalid_action_object''])
               else
                 (let (obj, w1) =
                        (case dict_get d ''objective'' of
                           JNull \<Rightarrow> (None, [])
                         | JStr ob \<Rightarrow>
                             if ob = ''minimize'' \<or> ob = ''maximize'' then (Some ob, [])
                             else (None, [''pricing.agent.invalid_objective''])
                         | _ \<Rightarrow> (None, [''pricing.agent.invalid_objective'']));
                      (url, w2) =
                        (case py_or (dict_get d ''pricing_url'') (dict_get d ''url'') of
                           JNull \<Rightarrow> (None, [])
                         | JStr u \<Rightarrow> (Some u, [])
                         | _ \<Rightarrow> (None, [''pricing.agent.invalid_pricing_url'']))
                  in (Some \<lparr>name = nm, objective = obj, pricing_url = url\<rparr>, w1 @ w2))
           | _ \<Rightarrow> (None, [''pricing.agent.invalid_action_object'']))
      | _ \<Rightarrow> (None, [''pricing.agent.unrecognized_action_entry'']))"

text \<open>The loop of \<^verbatim>\<open>_normalize_actions\<close> over the entries, in order.\<close>

fun normalize_entries :: "json list \<Rightarrow> PlannedAction list \<times> log" where
  "normalize_entries [] = ([], [])"
| "normalize_entries (entry # rest) =
     (let (planned_action, w) = parse_action_entry entry;
          (normalized, ws) = normalize_entries rest
      in (case planned_action of
            None \<Rightarrow> (normalized, w @ ws)
          | Some a \<Rightarrow> (a # normalized, w @ ws)))"

definition normalize_actions :: "json \<Rightarrow> PlannedAction list \<times> log" where
  "normalize_actions raw_actions =
     (if raw_actions = JNull \<or> raw_actions = JArr [] then ([], [])
      else (case raw_actions of
              JArr entries \<Rightarrow> normalize_entries entries
            | _ \<Rightarrow> ([], [''pricing.agent.invalid_actions''])))"

definition extract_filters :: "json \<Rightarrow> json" where
  "extract_filters raw_filters =
     (if raw_filters = JNull \<or> raw_filters = JObj [] then JNull
      else (case raw_filters of JObj d \<Rightarrow> JObj d | _ \<Rightarrow> JNull))"

text \<open>
  \<^verbatim>\<open>_resolve_pricing_reference\<close>. The plan's value is whatever the planner wrote under
  \<^verbatim>\<open>pricing_url\<close>; the first element of a list is taken as it is.
\<close>

definition resolve_pricing_reference ::
  "json \<Rightarrow> string option \<Rightarrow> string option \<Rightarrow> json" where
  "resolve_pricing_reference plan_url incoming_url yaml_content =
     (let resolved_plan_url =
            (case plan_url of
               JStr s \<Rightarrow> JStr s
             | JArr xs \<Rightarrow> (case xs of [] \<Rightarrow> JNull | x # _ \<Rightarrow> x)
             | _ \<Rightarrow> JNull);
          url = py_or resolved_plan_url (of_opt incoming_url)
      in if truthy_opt yaml_content \<and> \<not> truthy url then JStr ''uploaded://pricing''
         else url)"

text \<open>
  The workflow collaborator is outside this code. A dispatched call is recorded with the
  keyword arguments it is given; the workflow answers a call with a payload or raises,
  and may depend on the calls it has received before in the request.
\<close>

datatype wf_call =
    RunSummary (call_url: json) (call_yaml: "string option") (call_refresh: bool)
  | RunSubscriptions (call_url: json) (call_filters: json) (call_solver: json)
      (call_refresh: bool) (call_yaml: "string option")
  | RunOptimal (call_url: json) (call_filters: json) (call_solver: json)
      (call_objective: json) (call_refresh: bool) (call_yaml: "string option")

type_synonym workflow = "wf_call list \<Rightarrow> wf_call \<Rightarrow> exn + json"

text \<open>\<^verbatim>\<open>action.pricing_url or url\<close>, the reference an action runs against.\<close>

definition action_reference :: "PlannedAction \<Rightarrow> json \<Rightarrow> json" where
  "action_reference action default_url = py_or (of_opt (pricing_url action)) default_url"

fun ensure_pricing_context ::
  "PlannedAction list \<Rightarrow> json \<Rightarrow> string option \<Rightarrow> exn + unit" where
  "ensure_pricing_context [] url yaml_content = Inr ()"
| "ensure_pricing_context (action # rest) url yaml_content =
     (let action_url = action_reference action url in
      if name action \<in> {''subscriptions'', ''optimal''} \<and>
         \<not> (truthy action_url \<or> truthy_opt yaml_content)
      then Inl (ValueError
        ''Running subscriptions or optimal analysis requires a pricing URL or an uploaded Pricing2Yaml file.'')
      else if name action = ''summary'' \<and> \<not> (truthy action_url \<or> truthy_opt yaml_content)
      then Inl (ValueError
        ''A summary requires pricing context. Provide a pricing URL or Pricing2Yaml upload before running it.'')
      else ensure_pricing_context rest url yaml_content)"

text \<open>
  A list or a dictionary cannot be an element of a Python set: the membership test
  \<^verbatim>\<open>action_url not in transformed_urls\<close> raises \<^verbatim>\<open>TypeError\<close> for one.
\<close>

fun hashable :: "json \<Rightarrow> bool" where
  "hashable (JArr xs) = False"
| "hashable (JObj kvs) = False"
| "hashable v = True"

definition prepare_action_inputs ::
  "PlannedAction \<Rightarrow> json \<Rightarrow> bool \<Rightarrow> json set \<Rightarrow> string option
     \<Rightarrow> exn + (json \<times> bool \<times> string option)" where
  "prepare_action_inputs action default_url refresh_requested transformed_urls yaml_content =
     (let action_url = action_reference action default_url;
          action_yaml = (if action_url = JNull \<or> action_url = default_url
                         then yaml_content else None)
      in if refresh_requested \<and> truthy action_url
         then (if hashable action_url
               then Inr (action_url, action_url \<notin> transformed_urls, action_yaml)
               else Inl TypeError)
         else Inr (action_url, False, action_yaml))"

text \<open>The call \<^verbatim>\<open>_run_single_action\<close> makes, by the action's name.\<close>

definition run_single_action ::
  "PlannedAction \<Rightarrow> json \<Rightarrow> bool \<Rightarrow> json \<Rightarrow> json \<Rightarrow> json \<Rightarrow> string option \<Rightarrow> wf_call" where
  "run_single_action action url refresh solver filters objective_default yaml_content =
     (let resolved_objective = py_or (of_opt (objective action)) objective_default in
      if name action = ''summary'' then RunSummary url yaml_content refresh
      else if name action = ''subscriptions''
      then RunSubscriptions (py_or url (JStr '''')) filters solver refresh yaml_content
      else RunOptimal (py_or url (JStr '''')) filters solver resolved_objective refresh
             yaml_content)"

definition step_record :: "nat \<Rightarrow> PlannedAction \<Rightarrow> json \<Rightarrow> json \<Rightarrow> json \<Rightarrow> dict" where
  "step_record index action payload objective_default action_url =
     [(''index'', JInt (int index)), (''action'', JStr (name action)), (''payload'', payload)]
     @ (if name action = ''optimal''
        then [(''objective'', py_or (of_opt (objective action)) objective_default)] else [])
     @ (if truthy action_url then [(''url'', action_url)] else [])"

text \<open>
  The loop of \<^verbatim>\<open>_execute_actions\<close> from action number \<open>index\<close> on. \<open>history\<close> holds the
  calls dispatched so far; the result is the outcome (the step records and the last
  payload, or the exception that ended the request) and the calls dispatched from here
  on, in order.
\<close>

fun execute_loop ::
  "workflow \<Rightarrow> json \<Rightarrow> bool \<Rightarrow> json \<Rightarrow> json \<Rightarrow> json \<Rightarrow> string option \<Rightarrow>
   PlannedAction list \<Rightarrow> nat \<Rightarrow> dict list \<Rightarrow> json set \<Rightarrow> json \<Rightarrow> wf_call list \<Rightarrow>
   (exn + (dict list \<times> json)) \<times> wf_call list" where
  "execute_loop workflow url refresh_requested solver filters objective_default yaml_content
     [] index results transformed_urls last_payload history = (Inr (results, last_payload), [])"
| "execute_loop workflow url refresh_requested solver filters objective_default yaml_content
     (action # rest) index results transformed_urls last_payload history =
     (case prepare_action_inputs action url refresh_requested transformed_urls yaml_content of
        Inl e \<Rightarrow> (Inl e, [])
      | Inr (action_url, effective_refresh, action_yaml) \<Rightarrow>
          (let call = run_single_action action action_url effective_refresh solver filters
                        objective_default action_yaml
           in case workflow history call of
                Inl e \<Rightarrow> (Inl e, [call])
              | Inr payload \<Rightarrow>
                  (let transformed_urls' =
                         (if effective_refresh \<and> truthy action_url
                          then insert action_url transformed_urls else transformed_urls);
                       (outcome, calls) =
                         execute_loop workflow url refresh_requested solver filters objective_default
                           yaml_content rest (Suc index)
                           (results @ [step_record index action payload objective_default action_url])
                           transformed_urls' payload (history @ [call])
                   in (outcome, call # calls))))"

definition execute_actions ::
  "workflow \<Rightarrow> PlannedAction list \<Rightarrow> json \<Rightarrow> bool \<Rightarrow> json \<Rightarrow> json \<Rightarrow> json \<Rightarrow> string option \<Rightarrow>
   (exn + (dict list \<times> json)) \<times> wf_call list" where
  "execute_actions workflow actions url refresh solver filters objective_default yaml_content =
     (if actions = [] then (Inr ([], JNull), [])
      else (case ensure_pricing_context actions url yaml_content of
              Inl e \<Rightarrow> (Inl e, [])
            | Inr _ \<Rightarrow>
                execute_loop workflow url refresh solver filters objective_default yaml_content
                  actions 0 [] {} JNull []))"

definition compose_results_payload ::
  "PlannedAction list \<Rightarrow> dict list \<Rightarrow> json \<Rightarrow> json \<times> json" where
  "compose_results_payload actions results last_payload =
     (case results of
        [] \<Rightarrow> (JObj [(''steps'', JArr [])], JObj [(''steps'', JArr [])])
      | [record] \<Rightarrow>
          (let payload = dict_get record ''payload'' in
           (if payload = JNull then py_or last_payload (JObj []) else payload, JObj record))
      | _ \<Rightarrow>
          (let combined =
                 JObj ([(''actions'', JArr (map (\<lambda>action. JStr (name action)) actions)),
                        (''steps'', JArr (map JObj results))]
                       @ (if last_payload \<noteq> JNull then [(''lastPayload'', last_payload)] else []))
           in (combined, combined)))"

text \<open>
  \<^verbatim>\<open>handle_question\<close>. The two completion calls are outside what is modelled here:
  \<open>generated_plan\<close> is what \<^verbatim>\<open>_generate_plan\<close> returned or raised, and
  \<open>generate_answer\<close> maps the plan and the answer-context payload to what
  \<^verbatim>\<open>_generate_answer\<close> returns or raises. A plan that is not a dictionary has no
  \<^verbatim>\<open>get\<close>. The result is the returned dictionary or the exception, and the calls
  dispatched to the workflow.
\<close>

definition handle_question ::
  "(exn + json) \<Rightarrow> (json \<Rightarrow> json \<Rightarrow> exn + string) \<Rightarrow> workflow \<Rightarrow>
   string option \<Rightarrow> string option \<Rightarrow> (exn + json) \<times> wf_call list" where
  "handle_question generated_plan generate_answer workflow incoming_url yaml_content =
     (case generated_plan of
        Inl e \<Rightarrow> (Inl e, [])
      | Inr (JObj plan) \<Rightarrow>
          if truthy (dict_get plan ''requires_uploaded_yaml'') \<and> \<not> truthy_opt yaml_content
          then (Inl (ValueError
            ''The assistant needs a YAML pricing file to proceed. Please upload one and retry.''), [])
          else
            (let actions = fst (normalize_actions (dict_get plan ''actions''));
                 solver = dict_get_default plan ''solver'' (JStr ''minizinc'');
                 objective_default = dict_get_default plan ''objective'' (JStr ''minimize'');
                 filters = extract_filters (dict_get plan ''filters'');
                 refresh = truthy (dict_get_default plan ''refresh'' (JBool False));
                 url = resolve_pricing_reference (dict_get plan ''pricing_url'') incoming_url
                         yaml_content
             in case execute_actions workflow actions url refresh solver filters objective_default
                       yaml_content of
                  (Inl e, calls) \<Rightarrow> (Inl e, calls)
                | (Inr (results, last_payload), calls) \<Rightarrow>
                    (let (payload_for_answer, result_payload) =
                           compose_results_payload actions results last_payload
                     in case generate_answer (JObj plan) payload_for_answer of
                          Inl e \<Rightarrow> (Inl e, calls)
                        | Inr answer \<Rightarrow>
                            (Inr (JObj [(''plan'', JObj plan), (''result'', result_payload),
                                        (''answer'', JStr answer)]), calls)))
      | Inr _ \<Rightarrow> (Inl AttributeError, []))"

section \<open>The completion client (llm_client.py)\<close>

text \<open>
  Of the configuration only the two model names matter here. A string is a list of
  code points below 256; \<^verbatim>\<open>str.strip\<close> removes the characters for which
  \<^verbatim>\<open>str.isspace\<close> holds and \<^verbatim>\<open>str.splitlines\<close> breaks at the line boundaries of
  Python, both restricted to that range.
\<close>

record GeminiClientConfig =
  config_model :: string
  config_better_model :: "string option"

record LLMGenerationState =
  prompt :: string
  model :: string
  accumulated :: string
  finish_reason :: string
  use_better_model :: bool

definition isspace :: "char \<Rightarrow> bool" where
  "isspace c = ((of_char c :: nat) \<in> {9, 10, 11, 12, 13, 28, 29, 30, 31, 32, 133, 160})"

definition strip :: "string \<Rightarrow> string" where
  "strip s = rev (dropWhile isspace (rev (dropWhile isspace s)))"

definition is_linebreak :: "char \<Rightarrow> bool" where
  "is_linebreak c = ((of_char c :: nat) \<in> {10, 11, 12, 13, 28, 29, 30, 133})"

text \<open>\<^verbatim>\<open>splitlines\<close>, with the line read so far in \<open>cur\<close>; \<^verbatim>\<open>\r\n\<close> is one boundary.\<close>

fun splitlines_from :: "string \<Rightarrow> string \<Rightarrow> string list" where
  "splitlines_from [] cur = (if cur = [] then [] else [cur])"
| "splitlines_from [c] cur = (if is_linebreak c then [cur] else [cur @ [c]])"
| "splitlines_from (c # d # cs) cur =
     (if c = CHR 0x0D \<and> d = CHR 0x0A then cur # splitlines_from cs []
      else if is_linebreak c then cur # splitlines_from (d # cs) []
      else splitlines_from (d # cs) (cur @ [c]))"

definition splitlines :: "string \<Rightarrow> string list" where
  "splitlines s = splitlines_from s []"

fun join_lines :: "string list \<Rightarrow> string" where
  "join_lines [] = []"
| "join_lines [l] = l"
| "join_lines (l # ls) = l @ [CHR 0x0A] @ join_lines ls"

definition startswith :: "string \<Rightarrow> string \<Rightarrow> bool" where
  "startswith s p = (take (length p) s = p)"

definition endswith :: "string \<Rightarrow> string \<Rightarrow> bool" where
  "endswith s p = (length p \<le> length s \<and> drop (length s - length p) s = p)"

definition normalize_response :: "string \<Rightarrow> string" where
  "normalize_response response =
     (let stripped = strip response in
      if startswith stripped ''```'' \<and> endswith stripped ''```''
      then strip (join_lines (butlast (tl (splitlines stripped))))
      else stripped)"

definition build_continue_prompt :: "string \<Rightarrow> string \<Rightarrow> string" where
  "build_continue_prompt initial_prompt acc =
     ''The previous response was truncated. Resume exactly where it stopped.'' @ [CHR 0x0A] @
     ''<initial_prompt>'' @ [CHR 0x0A] @
     initial_prompt @ [CHR 0x0A] @
     ''</initial_prompt>'' @ [CHR 0x0A] @
     ''<partial_response>'' @ [CHR 0x0A] @
     acc @ [CHR 0x0A] @
     ''</partial_response>''"

text \<open>
  The remote model is outside this code: \<open>send attempt prompt model\<close> is what
  \<^verbatim>\<open>_send_prompt\<close> returns for the request of that attempt (the content and the finish
  reason, each \<open>""\<close> when the reply has none), or what it raises. \<^verbatim>\<open>json.loads\<close> and
  \<^verbatim>\<open>json.dumps\<close> are parameters too: \<open>loads\<close> gives \<open>None\<close> where the library raises
  \<^verbatim>\<open>JSONDecodeError\<close>.
\<close>

type_synonym sender = "int \<Rightarrow> string \<Rightarrow> string \<Rightarrow> exn + (string \<times> string)"

definition step_generation ::
  "sender \<Rightarrow> int \<Rightarrow> LLMGenerationState \<Rightarrow> exn + LLMGenerationState" where
  "step_generation send attempt state =
     (case send attempt (prompt state) (model state) of
        Inl e \<Rightarrow> Inl e
      | Inr (response_text, reason) \<Rightarrow>
          Inr \<lparr>prompt = prompt state, model = model state,
               accumulated = accumulated state @ normalize_response response_text,
               finish_reason = reason, use_better_model = use_better_model state\<rparr>)"

definition try_finalize ::
  "(string \<Rightarrow> json option) \<Rightarrow> (json \<Rightarrow> string) \<Rightarrow> LLMGenerationState \<Rightarrow> bool \<Rightarrow> string option" where
  "try_finalize loads dumps state json_output =
     (if json_output
      then (case loads (accumulated state) of None \<Rightarrow> None | Some parsed \<Rightarrow> Some (dumps parsed))
      else if finish_reason state \<noteq> ''length'' then Some (accumulated state) else None)"

definition prepare_retry ::
  "GeminiClientConfig \<Rightarrow> LLMGenerationState \<Rightarrow> string \<Rightarrow> LLMGenerationState" where
  "prepare_retry config state initial_prompt =
     (case config_better_model config of
        Some better \<Rightarrow>
          if better \<noteq> [] \<and> \<not> use_better_model state
          then \<lparr>prompt = initial_prompt, model = better, accumulated = [],
                finish_reason = [], use_better_model = True\<rparr>
          else \<lparr>prompt = build_continue_prompt initial_prompt (accumulated state),
                model = model state, accumulated = accumulated state,
                finish_reason = [], use_better_model = use_better_model state\<rparr>
      | None \<Rightarrow>
          \<lparr>prompt = build_continue_prompt initial_prompt (accumulated state),
           model = model state, accumulated = accumulated state,
           finish_reason = [], use_better_model = use_better_model state\<rparr>)"

text \<open>
  The loop of \<^verbatim>\<open>make_full_request\<close> from attempt number \<open>attempt\<close> on. The result is
  what the call returns or raises, the requests sent (prompt and model), in order, and
  the states after each reply.
\<close>

function attempt_loop ::
  "sender \<Rightarrow> (string \<Rightarrow> json option) \<Rightarrow> (json \<Rightarrow> string) \<Rightarrow> GeminiClientConfig \<Rightarrow>
   string \<Rightarrow> int \<Rightarrow> bool \<Rightarrow> int \<Rightarrow> LLMGenerationState \<Rightarrow>
   (exn + string) \<times> (string \<times> string) list \<times> LLMGenerationState list" where
  "attempt_loop send loads dumps config initial_prompt max_tries json_output attempt state =
     (if max_tries < attempt
      then (Inl (ValueError ''Could not obtain a complete response from the LLM.''), [], [])
      else
        (case step_generation send attempt state of
           Inl e \<Rightarrow> (Inl e, [(prompt state, model state)], [])
         | Inr state' \<Rightarrow>
             (case try_finalize loads dumps state' json_output of
                Some result \<Rightarrow> (Inr result, [(prompt state, model state)], [state'])
              | None \<Rightarrow>
                  if attempt = max_tries
                  then (Inl (ValueError ''Could not obtain a complete response from the LLM.''),
                        [(prompt state, model state)], [state'])
                  else
                    (let (outcome, calls, states) =
                           attempt_loop send loads dumps config initial_prompt max_tries
                             json_output (attempt + 1)
                             (prepare_retry config state' initial_prompt)
                     in (outcome, (prompt state, model state) # calls, state' # states)))))"
  by pat_completeness auto
termination
  by (relation "measure (\<lambda>(send, loads, dumps, config, initial_prompt, max_tries, json_output,
                            attempt, state). nat (max_tries + 1 - attempt))") auto

declare attempt_loop.simps [simp del]

definition make_full_request ::
  "sender \<Rightarrow> (string \<Rightarrow> json option) \<Rightarrow> (json \<Rightarrow> string) \<Rightarrow> GeminiClientConfig \<Rightarrow>
   string \<Rightarrow> int \<Rightarrow> bool \<Rightarrow>
   (exn + string) \<times> (string \<times> string) list \<times> LLMGenerationState list" where
  "make_full_request send loads dumps config initial_prompt max_tries json_output =
     attempt_loop send loads dumps config initial_prompt max_tries json_output 1
       \<lparr>prompt = initial_prompt, model = config_model config, accumulated = [],
        finish_reason = [], use_better_model = False\<rparr>"

text \<open>
  The condition of a call in which none of the next \<open>r\<close> attempts produces an acceptable
  response: each of them gets a reply, and \<^verbatim>\<open>_try_finalize\<close> rejects the state it
  leaves. It follows the states of the loop: the next attempt starts from what
  \<^verbatim>\<open>_prepare_retry\<close> makes of the rejected state.
\<close>

fun no_attempt_accepted ::
  "sender \<Rightarrow> (string \<Rightarrow> json option) \<Rightarrow> (json \<Rightarrow> string) \<Rightarrow> GeminiClientConfig \<Rightarrow>
   string \<Rightarrow> bool \<Rightarrow> nat \<Rightarrow> int \<Rightarrow> LLMGenerationState \<Rightarrow> bool" where
  "no_attempt_accepted send loads dumps config initial_prompt json_output 0 attempt state = True"
| "no_attempt_accepted send loads dumps config initial_prompt json_output (Suc r) attempt state =
     (case step_generation send attempt state of
        Inl e \<Rightarrow> False
      | Inr state' \<Rightarrow>
          try_finalize loads dumps state' json_output = None \<and>
          no_attempt_accepted send loads dumps config initial_prompt json_output r (attempt + 1)
            (prepare_retry config state' initial_prompt))"

text \<open>
  The test of \<^verbatim>\<open>_prepare_retry\<close>, \<^verbatim>\<open>self._config.better_model and not
  state.use_better_model\<close>: a better model is configured (a non-empty name) and the
  call has not switched to it yet.
\<close>

definition escalation_available :: "GeminiClientConfig \<Rightarrow> LLMGenerationState \<Rightarrow> bool" where
  "escalation_available config state =
     (truthy_opt (config_better_model config) \<and> \<not> use_better_model state)"

section \<open>The analysis job client (clients/analysis.py)\<close>

text \<open>
  The remote service is outside this code: \<open>get n\<close> is the outcome of the \<open>n\<close>-th
  status request of a job (counted from 0), the decoded body or the exception of
  \<^verbatim>\<open>raise_for_status\<close>. Waiting times are of any type with a zero, an addition and an
  order, of which nothing is assumed. The loop need not end (a poll interval of zero and
  a job that never finishes), so it is a partial function: \<open>None\<close> is a loop that runs
  forever. Its result is what \<^verbatim>\<open>_poll_job\<close> returns or raises and the number of status
  requests made.
\<close>

definition job_status :: "exn + json \<Rightarrow> json" where
  "job_status reply = (case reply of Inr (JObj d) \<Rightarrow> dict_get d ''status'' | _ \<Rightarrow> JNull)"

definition still_running :: "exn + json \<Rightarrow> bool" where
  "still_running reply =
     (case reply of
        Inr (JObj d) \<Rightarrow>
          dict_get d ''status'' \<noteq> JStr ''COMPLETED'' \<and> dict_get d ''status'' \<noteq> JStr ''FAILED''
      | _ \<Rightarrow> False)"

partial_function (option) poll_loop ::
  "(nat \<Rightarrow> exn + json) \<Rightarrow> 't::{zero,plus,ord} \<Rightarrow> 't \<Rightarrow> 't \<Rightarrow> nat \<Rightarrow> ((exn + json) \<times> nat) option"
  where
  "poll_loop get poll_interval_seconds max_wait_seconds elapsed n =
     (if elapsed < max_wait_seconds
      then (case get n of
              Inl e \<Rightarrow> Some (Inl e, Suc n)
            | Inr (JObj payload) \<Rightarrow>
                if dict_get payload ''status'' = JStr ''COMPLETED''
                then Some (Inr (dict_get_default payload ''result'' (JObj [])), Suc n)
                else if dict_get payload ''status'' = JStr ''FAILED''
                then Some (Inl (AnalysisError ''Analysis job failed: ''
                                  (Some (dict_get payload ''error''))), Suc n)
                else poll_loop get poll_interval_seconds max_wait_seconds
                       (elapsed + poll_interval_seconds) (Suc n)
            | Inr _ \<Rightarrow> Some (Inl AttributeError, Suc n))
      else Some (Inl (AnalysisError ''Timed out waiting for analysis result'' None), n))"

definition poll_job ::
  "(nat \<Rightarrow> exn + json) \<Rightarrow> 't::{zero,plus,ord} \<Rightarrow> 't \<Rightarrow> ((exn + json) \<times> nat) option" where
  "poll_job get poll_interval_seconds max_wait_seconds =
     poll_loop get poll_interval_seconds max_wait_seconds 0 0"

text \<open>
  \<^verbatim>\<open>submit_job\<close>: \<open>post\<close> is the outcome of the submission request, and \<open>get job_id\<close>
  answers the status requests for the job it names.
\<close>

definition submit_job ::
  "(exn + json) \<Rightarrow> (json \<Rightarrow> nat \<Rightarrow> exn + json) \<Rightarrow> 't::{zero,plus,ord} \<Rightarrow> 't
     \<Rightarrow> ((exn + json) \<times> nat) option" where
  "submit_job post get poll_interval_seconds max_wait_seconds =
     (case post of
        Inl e \<Rightarrow> Some (Inl e, 0)
      | Inr (JObj payload) \<Rightarrow>
          (case map_of payload ''jobId'' of
             None \<Rightarrow> Some (Inl KeyError, 0)
           | Some job_id \<Rightarrow> poll_job (get job_id) poll_interval_seconds max_wait_seconds)
      | Inr _ \<Rightarrow> Some (Inl TypeError, 0))"

text \<open>The value of \<^verbatim>\<open>elapsed\<close> after \<open>k\<close> rounds of sleeping, from \<open>0.0\<close>.\<close>

definition elapsed_after :: "'t::{zero,plus,ord} \<Rightarrow> nat \<Rightarrow> 't" where
  "elapsed_after poll_interval_seconds k = ((\<lambda>elapsed. elapsed + poll_interval_seconds) ^^ k) 0"

section \<open>Properties of the cache\<close>

text \<open>
  Claim C9. After \<open>set(key, value, ttl)\<close> at time \<open>t0\<close>, the expiry instant is
  \<open>t0 + ttl\<close>. A \<open>get(key)\<close> at a time before that instant returns the value and
  leaves the store as it is; a \<open>get(key)\<close> at a time after it returns absent and the
  store it leaves has no entry for the key (every other key is untouched). Nothing
  but \<open>get\<close> removes an entry: the eviction is lazy.
\<close>

theorem cache_set_then_get:
  fixes st :: "('v, 't::{linorder,plus}) store"
  shows "(t1 < t0 + ttl \<longrightarrow>
            cache_get (cache_set st t0 key v ttl) t1 key
              = (Some v, cache_set st t0 key v ttl)) \<and>
         (t0 + ttl < t1 \<longrightarrow>
            fst (cache_get (cache_set st t0 key v ttl) t1 key) = None \<and>
            snd (cache_get (cache_set st t0 key v ttl) t1 key) key = None \<and>
            (\<forall>k. k \<noteq> key \<longrightarrow>
               snd (cache_get (cache_set st t0 key v ttl) t1 key) k = st k))"
  by (auto simp: cache_get_def cache_set_def)

theorem cache_set_then_get_witness:
  "((100::int) < 100 + 1 \<and>
      cache_get (cache_set Map.empty (100::int) ''k'' (7::nat) 1) 100 ''k''
        = (Some 7, cache_set Map.empty 100 ''k'' 7 1)) \<and>
   ((100::int) + 1 < 102 \<and>
      fst (cache_get (cache_set Map.empty (100::int) ''k'' (7::nat) 1) 102 ''k'') = None \<and>
      snd (cache_get (cache_set Map.empty (100::int) ''k'' (7::nat) 1) 102 ''k'') ''k'' = None \<and>
      snd (cache_get (cache_set Map.empty (100::int) ''k'' (7::nat) 1) 102 ''k'') ''j''
        = (Map.empty :: (nat, int) store) ''j'')"
  using cache_set_then_get [of 100 "100::int" 1 "Map.empty :: (nat, int) store" "''k''" 7]
    cache_set_then_get [of 102 "100::int" 1 "Map.empty :: (nat, int) store" "''k''" 7]
  by simp

text \<open>
  Claim C10. An entry counts as expired only when the current time is strictly greater
  than its expiry instant: for a stored entry, \<open>get\<close> returns absent exactly when
  \<open>expires_at < now\<close>, and a \<open>get\<close> at exactly the expiry instant returns the stored
  value and leaves the store unchanged, entry included.
\<close>

theorem cache_get_boundary:
  fixes st :: "('v, 't::{linorder,plus}) store"
  assumes "st key = Some entry"
  shows "(fst (cache_get st now key) = None \<longleftrightarrow> expires_at entry < now) \<and>
         cache_get st (expires_at entry) key = (Some (entry_value entry), st)"
  using assms by (simp add: cache_get_def)

theorem cache_get_boundary_witness:
  "cache_set Map.empty (100::int) ''k'' (7::nat) 1 ''k''
     = Some \<lparr>entry_value = 7, expires_at = 101\<rparr> \<and>
   (fst (cache_get (cache_set Map.empty (100::int) ''k'' (7::nat) 1) 102 ''k'') = None
      \<longleftrightarrow> (101::int) < 102) \<and>
   cache_get (cache_set Map.empty (100::int) ''k'' (7::nat) 1) 101 ''k''
     = (Some 7, cache_set Map.empty 100 ''k'' 7 1)"
proof -
  have h: "cache_set Map.empty (100::int) ''k'' (7::nat) 1 ''k''
             = Some \<lparr>entry_value = 7, expires_at = 101\<rparr>"
    by (simp add: cache_set_def)
  show ?thesis
    using h cache_get_boundary
      [of "cache_set Map.empty (100::int) ''k'' (7::nat) 1" "''k''"
          "\<lparr>entry_value = 7, expires_at = 101\<rparr>" 102]
    by simp
qed

section \<open>Properties of plan normalization\<close>

lemma normalize_entries_append:
  "fst (normalize_entries (xs @ ys)) = fst (normalize_entries xs) @ fst (normalize_entries ys)"
  by (induction xs) (auto split: prod.splits option.splits)

lemma normalize_actions_entries:
  "fst (normalize_actions (JArr es)) = fst (normalize_entries es)"
  by (cases es) (simp_all add: normalize_actions_def)

lemma normalize_actions_insert:
  "fst (normalize_actions (JArr (pre @ entry # post))) =
     fst (normalize_actions (JArr pre)) @
     (case fst (parse_action_entry entry) of None \<Rightarrow> [] | Some a \<Rightarrow> [a]) @
     fst (normalize_actions (JArr post))"
  by (simp add: normalize_actions_entries normalize_entries_append
           split: prod.splits option.splits)

lemma parse_outside_vocabulary:
  "(entry = JStr s \<or> (entry = JObj d \<and> dict_get d ''name'' = JStr s)) \<Longrightarrow>
   s \<notin> ALLOWED_ACTIONS \<Longrightarrow> fst (parse_action_entry entry) = None"
  by (auto simp: parse_action_entry_def)

lemma parse_bad_objective:
  "nm \<in> ALLOWED_ACTIONS \<Longrightarrow> dict_get d ''name'' = JStr nm \<Longrightarrow>
   dict_get d ''objective'' \<notin> {JNull, JStr ''minimize'', JStr ''maximize''} \<Longrightarrow>
   (\<exists>u w. parse_action_entry (JObj d) = (Some \<lparr>name = nm, objective = None, pricing_url = u\<rparr>, w)
      \<and> ''pricing.agent.invalid_objective'' \<in> set w)"
  by (auto simp: parse_action_entry_def split: json.splits prod.splits)

text \<open>
  Claim C6. The raw action list \<open>["summary", {"name": "optimal", "objective": "maximize"},
  {"name": "bogus"}]\<close> is normalized to exactly the two actions \<open>summary\<close> and
  \<open>optimal\<close> with objective \<open>maximize\<close>, and one warning is recorded for the
  \<open>bogus\<close> entry. In general: an entry (a bare name, or an object with a \<open>name\<close>)
  whose name is outside the closed vocabulary parses to nothing and leaves no trace in
  the normalized list; an object with a name of the vocabulary whose \<open>objective\<close> is
  none of absent, \<open>minimize\<close>, \<open>maximize\<close> is kept, at its place, with no objective,
  and the warning \<open>pricing.agent.invalid_objective\<close> is recorded. Normalization is a
  total function: no entry makes it fail.
\<close>

theorem normalize_actions_vocabulary:
  "normalize_actions
       (JArr [JStr ''summary'',
              JObj [(''name'', JStr ''optimal''), (''objective'', JStr ''maximize'')],
              JObj [(''name'', JStr ''bogus'')]])
     = ([\<lparr>name = ''summary'', objective = None, pricing_url = None\<rparr>,
         \<lparr>name = ''optimal'', objective = Some ''maximize'', pricing_url = None\<rparr>],
        [''pricing.agent.invalid_action_object'']) \<and>
   ((entry = JStr s \<or> (entry = JObj d \<and> dict_get d ''name'' = JStr s)) \<and>
      s \<notin> ALLOWED_ACTIONS \<longrightarrow>
      fst (parse_action_entry entry) = None \<and>
      fst (normalize_actions (JArr (pre @ entry # post))) =
        fst (normalize_actions (JArr pre)) @ fst (normalize_actions (JArr post))) \<and>
   (nm \<in> ALLOWED_ACTIONS \<and> dict_get d' ''name'' = JStr nm \<and>
      dict_get d' ''objective'' \<notin> {JNull, JStr ''minimize'', JStr ''maximize''} \<longrightarrow>
      (\<exists>u w. parse_action_entry (JObj d') =
                (Some \<lparr>name = nm, objective = None, pricing_url = u\<rparr>, w) \<and>
              ''pricing.agent.invalid_objective'' \<in> set w \<and>
              fst (normalize_actions (JArr (pre @ JObj d' # post))) =
                fst (normalize_actions (JArr pre)) @
                [\<lparr>name = nm, objective = None, pricing_url = u\<rparr>] @
                fst (normalize_actions (JArr post))))"
proof (intro conjI impI)
  show "normalize_actions
       (JArr [JStr ''summary'',
              JObj [(''name'', JStr ''optimal''), (''objective'', JStr ''maximize'')],
              JObj [(''name'', JStr ''bogus'')]])
     = ([\<lparr>name = ''summary'', objective = None, pricing_url = None\<rparr>,
         \<lparr>name = ''optimal'', objective = Some ''maximize'', pricing_url = None\<rparr>],
        [''pricing.agent.invalid_action_object''])"
    by (simp add: normalize_actions_def parse_action_entry_def ALLOWED_ACTIONS_def
          dict_get_def py_or_def)
next
  assume h: "(entry = JStr s \<or> (entry = JObj d \<and> dict_get d ''name'' = JStr s)) \<and>
      s \<notin> ALLOWED_ACTIONS"
  then show none: "fst (parse_action_entry entry) = None"
    by (rule_tac parse_outside_vocabulary [of entry s d]) simp_all
  show "fst (normalize_actions (JArr (pre @ entry # post))) =
        fst (normalize_actions (JArr pre)) @ fst (normalize_actions (JArr post))"
    by (simp add: normalize_actions_insert none)
next
  assume h: "nm \<in> ALLOWED_ACTIONS \<and> dict_get d' ''name'' = JStr nm \<and>
      dict_get d' ''objective'' \<notin> {JNull, JStr ''minimize'', JStr ''maximize''}"
  then have "\<exists>u w. parse_action_entry (JObj d') =
                (Some \<lparr>name = nm, objective = None, pricing_url = u\<rparr>, w) \<and>
              ''pricing.agent.invalid_objective'' \<in> set w"
    by (intro parse_bad_objective) simp_all
  then obtain u w where p: "parse_action_entry (JObj d') =
                (Some \<lparr>name = nm, objective = None, pricing_url = u\<rparr>, w)"
     and w: "''pricing.agent.invalid_objective'' \<in> set w"
    by (elim exE conjE)
  have "fst (normalize_actions (JArr (pre @ JObj d' # post))) =
                fst (normalize_actions (JArr pre)) @
                [\<lparr>name = nm, objective = None, pricing_url = u\<rparr>] @
                fst (normalize_actions (JArr post))"
    by (simp add: normalize_actions_insert p)
  with p w show "\<exists>u w. parse_action_entry (JObj d') =
                (Some \<lparr>name = nm, objective = None, pricing_url = u\<rparr>, w) \<and>
              ''pricing.agent.invalid_objective'' \<in> set w \<and>
              fst (normalize_actions (JArr (pre @ JObj d' # post))) =
                fst (normalize_actions (JArr pre)) @
                [\<lparr>name = nm, objective = None, pricing_url = u\<rparr>] @
                fst (normalize_actions (JArr post))"
    by (intro exI [of _ u] exI [of _ w] conjI)
qed


theorem normalize_actions_vocabulary_witness:
  "''bogus'' \<notin> ALLOWED_ACTIONS \<and>
   fst (parse_action_entry (JObj [(''name'', JStr ''bogus'')])) = None \<and>
   fst (normalize_actions (JArr ([JStr ''summary''] @ JObj [(''name'', JStr ''bogus'')] # [JStr ''optimal'']))) =
     fst (normalize_actions (JArr [JStr ''summary''])) @ fst (normalize_actions (JArr [JStr ''optimal''])) \<and>
   ''subscriptions'' \<in> ALLOWED_ACTIONS \<and>
   dict_get [(''name'', JStr ''subscriptions''), (''objective'', JStr ''cheapest'')] ''objective''
     \<notin> {JNull, JStr ''minimize'', JStr ''maximize''} \<and>
   (\<exists>u w. parse_action_entry (JObj [(''name'', JStr ''subscriptions''), (''objective'', JStr ''cheapest'')]) =
            (Some \<lparr>name = ''subscriptions'', objective = None, pricing_url = u\<rparr>, w) \<and>
          ''pricing.agent.invalid_objective'' \<in> set w \<and>
          fst (normalize_actions
                 (JArr ([JStr ''summary''] @
                    JObj [(''name'', JStr ''subscriptions''), (''objective'', JStr ''cheapest'')] #
                    [JStr ''optimal'']))) =
            fst (normalize_actions (JArr [JStr ''summary''])) @
            [\<lparr>name = ''subscriptions'', objective = None, pricing_url = u\<rparr>] @
            fst (normalize_actions (JArr [JStr ''optimal''])))"
proof -
  have a: "''bogus'' \<notin> ALLOWED_ACTIONS" by (simp add: ALLOWED_ACTIONS_def)
  have b: "''subscriptions'' \<in> ALLOWED_ACTIONS" by (simp add: ALLOWED_ACTIONS_def)
  have c: "dict_get [(''name'', JStr ''subscriptions''), (''objective'', JStr ''cheapest'')] ''objective''
     \<notin> {JNull, JStr ''minimize'', JStr ''maximize''}" by (simp add: dict_get_def)
  have d: "dict_get [(''name'', JStr ''subscriptions''), (''objective'', JStr ''cheapest'')] ''name'' = JStr ''subscriptions''"
    by (simp add: dict_get_def)
  have e: "dict_get [(''name'', JStr ''bogus'')] ''name'' = JStr ''bogus''"
    by (simp add: dict_get_def)
  show ?thesis
    using a b c d e
      normalize_actions_vocabulary
        [where entry = "JObj [(''name'', JStr ''bogus'')]" and s = "''bogus''"
           and d = "[(''name'', JStr ''bogus'')]" and pre = "[JStr ''summary'']"
           and post = "[JStr ''optimal'']" and nm = "''subscriptions''"
           and d' = "[(''name'', JStr ''subscriptions''), (''objective'', JStr ''cheapest'')]"]
    by simp
qed

section \<open>Properties of reference resolution\<close>

text \<open>
  Claim C8 says that the plan's own reference is the effective one whenever it is a
  string. The empty string is a string, and the source combines the plan's value and the
  caller's with \<^verbatim>\<open>or\<close>: for the plan value \<open>""\<close> and a caller-supplied reference,
  the caller's reference is returned, not the plan's.
\<close>

theorem resolve_plan_empty_string_counterexample:
  "resolve_pricing_reference (JStr '''') (Some ''https://example.com/pricing'') None
     = JStr ''https://example.com/pricing'' \<and>
   resolve_pricing_reference (JStr '''') (Some ''https://example.com/pricing'') None
     \<noteq> JStr ''''"
  by (simp add: resolve_pricing_reference_def py_or_def of_opt_def truthy_opt_def)

text \<open>
  Claim C8, amended. The effective reference is the plan's own value if it is a non-empty
  string; the first element if it is a non-empty sequence whose first element is true
  in Python's sense; in every other case (an empty string, an empty sequence, a false
  first element, any value that is neither a string nor a sequence) the caller-supplied
  reference if that is non-empty, else the sentinel \<open>uploaded://pricing\<close> if non-empty
  document content was supplied, else the caller-supplied value as it is. With no plan
  reference, no caller reference and no document content the result is absent.
\<close>

theorem resolve_pricing_reference_priority:
  "(s \<noteq> [] \<longrightarrow> resolve_pricing_reference (JStr s) incoming_url yaml_content = JStr s) \<and>
   (truthy x \<longrightarrow> resolve_pricing_reference (JArr (x # xs)) incoming_url yaml_content = x) \<and>
   (plan_url = JStr [] \<or> plan_url = JArr [] \<or> (\<exists>y ys. plan_url = JArr (y # ys) \<and> \<not> truthy y) \<or>
      ((\<forall>t. plan_url \<noteq> JStr t) \<and> (\<forall>ys. plan_url \<noteq> JArr ys)) \<longrightarrow>
      resolve_pricing_reference plan_url incoming_url yaml_content =
        (if truthy_opt incoming_url then of_opt incoming_url
         else if truthy_opt yaml_content then JStr ''uploaded://pricing''
         else of_opt incoming_url)) \<and>
   resolve_pricing_reference JNull None None = JNull"
proof (intro conjI impI)
  assume "s \<noteq> []"
  then show "resolve_pricing_reference (JStr s) incoming_url yaml_content = JStr s"
    by (simp add: resolve_pricing_reference_def py_or_def)
next
  assume "truthy x"
  then show "resolve_pricing_reference (JArr (x # xs)) incoming_url yaml_content = x"
    by (simp add: resolve_pricing_reference_def py_or_def)
next
  assume h: "plan_url = JStr [] \<or> plan_url = JArr [] \<or> (\<exists>y ys. plan_url = JArr (y # ys) \<and> \<not> truthy y) \<or>
      ((\<forall>t. plan_url \<noteq> JStr t) \<and> (\<forall>ys. plan_url \<noteq> JArr ys))"
  have c: "\<not> truthy (case plan_url of JStr s \<Rightarrow> JStr s
             | JArr xs \<Rightarrow> (case xs of [] \<Rightarrow> JNull | x # _ \<Rightarrow> x)
             | _ \<Rightarrow> JNull)"
    using h by (cases plan_url) auto
  show "resolve_pricing_reference plan_url incoming_url yaml_content =
        (if truthy_opt incoming_url then of_opt incoming_url
         else if truthy_opt yaml_content then JStr ''uploaded://pricing''
         else of_opt incoming_url)"
    using c by (simp add: resolve_pricing_reference_def py_or_def Let_def truthy_opt_def)
next
  show "resolve_pricing_reference JNull None None = JNull"
    by (simp add: resolve_pricing_reference_def py_or_def of_opt_def truthy_opt_def)
qed

theorem resolve_pricing_reference_priority_witness:
  "''https://a.example/p'' \<noteq> [] \<and>
   resolve_pricing_reference (JStr ''https://a.example/p'') (Some ''https://b.example/p'') (Some ''yaml'')
     = JStr ''https://a.example/p'' \<and>
   truthy (JStr ''https://c.example/p'') \<and>
   resolve_pricing_reference (JArr [JStr ''https://c.example/p'', JStr ''https://d.example/p''])
       (Some ''https://b.example/p'') None
     = JStr ''https://c.example/p'' \<and>
   resolve_pricing_reference JNull (Some ''https://b.example/p'') None = JStr ''https://b.example/p'' \<and>
   resolve_pricing_reference (JStr []) None (Some ''yaml'') = JStr ''uploaded://pricing''"
  using resolve_pricing_reference_priority
      [of "''https://a.example/p''" "Some ''https://b.example/p''" "Some ''yaml''"
          "JStr ''https://c.example/p''" "[JStr ''https://d.example/p'']" JNull]
    resolve_pricing_reference_priority
      [of "''https://a.example/p''" "Some ''https://b.example/p''" None
          "JStr ''https://c.example/p''" "[JStr ''https://d.example/p'']" JNull]
    resolve_pricing_reference_priority
      [of "''https://a.example/p''" None "Some ''yaml''"
          "JStr ''https://c.example/p''" "[JStr ''https://d.example/p'']" "JStr []"]
  by (simp add: of_opt_def truthy_opt_def)

section \<open>Properties of action execution\<close>

lemma prepare_action_inputs_Inr:
  "prepare_action_inputs action url r T y = Inr (u, e, ay) \<Longrightarrow>
     u = action_reference action url \<and> e = (r \<and> truthy u \<and> u \<notin> T)"
  by (auto simp: prepare_action_inputs_def Let_def split: if_splits)

lemma call_refresh_run_single_action [simp]:
  "call_refresh (run_single_action action u e solver filters od ay) = e"
  by (simp add: run_single_action_def Let_def)

lemma execute_loop_refresh:
  "execute_loop workflow url refresh solver filters od yaml rest index results T lastp history
     = (outcome, calls) \<Longrightarrow>
   length calls \<le> length rest \<and>
   (\<forall>i<length calls.
      call_refresh (calls ! i) =
        (refresh \<and> truthy (action_reference (rest ! i) url) \<and>
         action_reference (rest ! i) url \<notin> T \<and>
         (\<forall>j<i. call_refresh (calls ! j) \<longrightarrow>
                 action_reference (rest ! j) url \<noteq> action_reference (rest ! i) url)))"
proof (induction rest arbitrary: index results T lastp history outcome calls)
  case Nil
  then show ?case by simp
next
  case (Cons action rest)
  show ?case
  proof (cases "prepare_action_inputs action url refresh T yaml")
    case (Inl e)
    with Cons.prems show ?thesis by simp
  next
    case (Inr triple)
    obtain u e ay where t: "triple = (u, e, ay)" by (cases triple)
    from Inr t have u: "u = action_reference action url" and e: "e = (refresh \<and> truthy u \<and> u \<notin> T)"
      using prepare_action_inputs_Inr by blast+
    define call where "call = run_single_action action u e solver filters od ay"
    show ?thesis
    proof (cases "workflow history call")
      case (Inl x)
      with Cons.prems Inr t have "calls = [call]" by (simp add: call_def)
      then show ?thesis using u e by (simp add: call_def)
    next
      case (Inr payload)
      define T' where "T' = (if e \<and> truthy u then insert u T else T)"
      obtain outcome' calls' where rec:
        "execute_loop workflow url refresh solver filters od yaml rest (Suc index)
           (results @ [step_record index action payload od u]) T' payload (history @ [call])
         = (outcome', calls')"
        by (cases "execute_loop workflow url refresh solver filters od yaml rest (Suc index)
           (results @ [step_record index action payload od u]) T' payload (history @ [call])")
      from Cons.prems \<open>prepare_action_inputs action url refresh T yaml = Inr triple\<close> t Inr rec
      have calls: "calls = call # calls'"
        by (simp add: call_def T'_def)
      note IH = Cons.IH [OF rec]
      have T': "\<And>x. x \<notin> T' \<longleftrightarrow> (x \<notin> T \<and> (e \<longrightarrow> x \<noteq> u))"
        using e by (auto simp: T'_def)
      have len: "length calls \<le> length (action # rest)" using IH calls by simp
      have "call_refresh (calls ! i) =
        (refresh \<and> truthy (action_reference ((action # rest) ! i) url) \<and>
         action_reference ((action # rest) ! i) url \<notin> T \<and>
         (\<forall>j<i. call_refresh (calls ! j) \<longrightarrow>
                 action_reference ((action # rest) ! j) url \<noteq> action_reference ((action # rest) ! i) url))"
        if i: "i < length calls" for i
      proof (cases i)
        case 0
        then show ?thesis using calls e u by (simp add: call_def)
      next
        case (Suc k)
        with i calls have k: "k < length calls'" by simp
        have c0: "call_refresh call = e" by (simp add: call_def)
        from IH k have
          "call_refresh (calls' ! k) =
            (refresh \<and> truthy (action_reference (rest ! k) url) \<and>
             action_reference (rest ! k) url \<notin> T' \<and>
             (\<forall>j<k. call_refresh (calls' ! j) \<longrightarrow>
                 action_reference (rest ! j) url \<noteq> action_reference (rest ! k) url))"
          by blast
        then show ?thesis
          using Suc calls c0 u
          by (auto simp: T' less_Suc_eq_0_disj)
      qed
      with len show ?thesis by blast
    qed
  qed
qed

lemma execute_loop_calls:
  "execute_loop workflow url refresh solver filters od yaml rest index results T lastp history
     = (outcome, calls) \<Longrightarrow>
   (\<forall>i<length calls. \<exists>e ay.
      calls ! i = run_single_action (rest ! i) (action_reference (rest ! i) url) e solver filters od ay)"
proof (induction rest arbitrary: index results T lastp history outcome calls)
  case Nil
  then show ?case by simp
next
  case (Cons action rest)
  show ?case
  proof (cases "prepare_action_inputs action url refresh T yaml")
    case (Inl e)
    with Cons.prems show ?thesis by simp
  next
    case (Inr triple)
    obtain u e ay where t: "triple = (u, e, ay)" by (cases triple)
    from Inr t have u: "u = action_reference action url"
      using prepare_action_inputs_Inr by blast
    define call where "call = run_single_action action u e solver filters od ay"
    show ?thesis
    proof (cases "workflow history call")
      case (Inl x)
      with Cons.prems Inr t have "calls = [call]" by (simp add: call_def)
      then show ?thesis using u call_def by auto
    next
      case (Inr payload)
      define T' where "T' = (if e \<and> truthy u then insert u T else T)"
      obtain outcome' calls' where rec:
        "execute_loop workflow url refresh solver filters od yaml rest (Suc index)
           (results @ [step_record index action payload od u]) T' payload (history @ [call])
         = (outcome', calls')"
        by (cases "execute_loop workflow url refresh solver filters od yaml rest (Suc index)
           (results @ [step_record index action payload od u]) T' payload (history @ [call])")
      from Cons.prems \<open>prepare_action_inputs action url refresh T yaml = Inr triple\<close> t Inr rec
      have calls: "calls = call # calls'"
        by (simp add: call_def T'_def)
      note IH = Cons.IH [OF rec]
      have "\<exists>e ay. calls ! i = run_single_action ((action # rest) ! i)
                (action_reference ((action # rest) ! i) url) e solver filters od ay"
        if i: "i < length calls" for i
      proof (cases i)
        case 0
        then show ?thesis using calls u call_def by auto
      next
        case (Suc k)
        with i calls have k: "k < length calls'" by simp
        with IH show ?thesis using Suc calls by simp
      qed
      then show ?thesis by blast
    qed
  qed
qed

lemma call_url_run_single_action:
  "truthy u \<Longrightarrow> call_url (run_single_action action u e solver filters od ay) = u"
  by (simp add: run_single_action_def Let_def py_or_def)

text \<open>
  Claim C3. In one run of \<open>execute_actions\<close>, whatever the workflow answers and
  however the run ends, the calls dispatched are those of the first actions of the plan,
  in order, and the refresh flag of the \<open>i\<close>-th dispatched call is true exactly when the
  plan's refresh flag is true, the \<open>i\<close>-th action has a reference (its own or the
  request's, non-empty) and no earlier call of the request was dispatched with
  \<open>refresh = true\<close> for that same reference. A call dispatched with \<open>refresh = true\<close>
  carries that reference, so no two calls with \<open>refresh = true\<close> carry the same
  reference; and when the plan asks for a refresh and two dispatched actions share one
  reference, the first call carries \<open>refresh = true\<close> and the second
  \<open>refresh = false\<close>.
\<close>

theorem execute_actions_refresh_dedup:
  assumes "execute_actions workflow actions url refresh solver filters od yaml = (outcome, calls)"
  shows "length calls \<le> length actions \<and>
    (\<forall>i<length calls.
       call_refresh (calls ! i) =
         (refresh \<and> truthy (action_reference (actions ! i) url) \<and>
          (\<forall>j<i. call_refresh (calls ! j) \<longrightarrow>
             action_reference (actions ! j) url \<noteq> action_reference (actions ! i) url))) \<and>
    (\<forall>i<length calls. call_refresh (calls ! i) \<longrightarrow>
       call_url (calls ! i) = action_reference (actions ! i) url) \<and>
    (\<forall>i<length calls. \<forall>j<i. call_refresh (calls ! i) \<and> call_refresh (calls ! j) \<longrightarrow>
       call_url (calls ! j) \<noteq> call_url (calls ! i)) \<and>
    (refresh \<and> length calls = 2 \<and> truthy (action_reference (actions ! 0) url) \<and>
       action_reference (actions ! 1) url = action_reference (actions ! 0) url \<longrightarrow>
       call_refresh (calls ! 0) \<and> \<not> call_refresh (calls ! 1))"
proof -
  have main: "length calls \<le> length actions \<and>
    (\<forall>i<length calls.
       call_refresh (calls ! i) =
         (refresh \<and> truthy (action_reference (actions ! i) url) \<and>
          action_reference (actions ! i) url \<notin> {} \<and>
          (\<forall>j<i. call_refresh (calls ! j) \<longrightarrow>
             action_reference (actions ! j) url \<noteq> action_reference (actions ! i) url)))"
    and shape: "\<forall>i<length calls. \<exists>e ay.
      calls ! i = run_single_action (actions ! i) (action_reference (actions ! i) url) e solver filters od ay"
  proof -
    consider (empty) "calls = []"
      | (loop) "execute_loop workflow url refresh solver filters od yaml actions 0 [] {} JNull []
                  = (outcome, calls)"
      using assms by (auto simp: execute_actions_def split: if_splits sum.splits)
    then have "(length calls \<le> length actions \<and>
    (\<forall>i<length calls.
       call_refresh (calls ! i) =
         (refresh \<and> truthy (action_reference (actions ! i) url) \<and>
          action_reference (actions ! i) url \<notin> {} \<and>
          (\<forall>j<i. call_refresh (calls ! j) \<longrightarrow>
             action_reference (actions ! j) url \<noteq> action_reference (actions ! i) url)))) \<and>
      (\<forall>i<length calls. \<exists>e ay.
      calls ! i = run_single_action (actions ! i) (action_reference (actions ! i) url) e solver filters od ay)"
    proof cases
      case empty
      then show ?thesis by simp
    next
      case loop
      show ?thesis
        using execute_loop_refresh [OF loop] execute_loop_calls [OF loop] by blast
    qed
    then show "length calls \<le> length actions \<and>
    (\<forall>i<length calls.
       call_refresh (calls ! i) =
         (refresh \<and> truthy (action_reference (actions ! i) url) \<and>
          action_reference (actions ! i) url \<notin> {} \<and>
          (\<forall>j<i. call_refresh (calls ! j) \<longrightarrow>
             action_reference (actions ! j) url \<noteq> action_reference (actions ! i) url)))"
      and "\<forall>i<length calls. \<exists>e ay.
      calls ! i = run_single_action (actions ! i) (action_reference (actions ! i) url) e solver filters od ay"
      by blast+
  qed
  have flags: "call_refresh (calls ! i) =
         (refresh \<and> truthy (action_reference (actions ! i) url) \<and>
          (\<forall>j<i. call_refresh (calls ! j) \<longrightarrow>
             action_reference (actions ! j) url \<noteq> action_reference (actions ! i) url))"
    if "i < length calls" for i
    using main that by simp
  have urls: "call_url (calls ! i) = action_reference (actions ! i) url"
    if "i < length calls" "call_refresh (calls ! i)" for i
  proof -
    from shape that obtain e ay where
      "calls ! i = run_single_action (actions ! i) (action_reference (actions ! i) url) e solver filters od ay"
      by blast
    moreover have "truthy (action_reference (actions ! i) url)"
      using flags that by blast
    ultimately show ?thesis by (simp add: call_url_run_single_action)
  qed
  have distinct: "call_url (calls ! j) \<noteq> call_url (calls ! i)"
    if "i < length calls" "j < i" "call_refresh (calls ! i)" "call_refresh (calls ! j)" for i j
  proof -
    have "action_reference (actions ! j) url \<noteq> action_reference (actions ! i) url"
      using flags [of i] that by blast
    moreover have "j < length calls" using that by simp
    ultimately show ?thesis using urls that by simp
  qed
  have two: "call_refresh (calls ! 0) \<and> \<not> call_refresh (calls ! 1)"
    if "refresh" "length calls = 2" "truthy (action_reference (actions ! 0) url)"
       "action_reference (actions ! 1) url = action_reference (actions ! 0) url"
  proof -
    have a: "call_refresh (calls ! 0)" using flags [of 0] that by simp
    have "\<not> call_refresh (calls ! 1)"
    proof
      assume "call_refresh (calls ! 1)"
      then have "\<forall>j<1. call_refresh (calls ! j) \<longrightarrow>
             action_reference (actions ! j) url \<noteq> action_reference (actions ! 1) url"
        using flags [of 1] that by simp
      then have "call_refresh (calls ! 0) \<longrightarrow>
             action_reference (actions ! 0) url \<noteq> action_reference (actions ! 1) url"
        by (elim allE [of _ 0]) simp
      with a that show False by simp
    qed
    with a show ?thesis by simp
  qed
  show ?thesis
    using main flags urls distinct two by blast
qed

theorem execute_actions_refresh_dedup_witness:
  "snd (execute_actions (\<lambda>history call. Inr (JObj [(''ok'', JBool True)]))
          [\<lparr>name = ''summary'', objective = None, pricing_url = None\<rparr>,
           \<lparr>name = ''optimal'', objective = None,
              pricing_url = Some ''https://example.com/pricing''\<rparr>]
          (JStr ''https://example.com/pricing'') True (JStr ''minizinc'') JNull
          (JStr ''minimize'') None)
     = [RunSummary (JStr ''https://example.com/pricing'') None True,
        RunOptimal (JStr ''https://example.com/pricing'') JNull (JStr ''minizinc'')
          (JStr ''minimize'') False None] \<and>
   call_refresh (snd (execute_actions (\<lambda>history call. Inr (JObj [(''ok'', JBool True)]))
          [\<lparr>name = ''summary'', objective = None, pricing_url = None\<rparr>,
           \<lparr>name = ''optimal'', objective = None,
              pricing_url = Some ''https://example.com/pricing''\<rparr>]
          (JStr ''https://example.com/pricing'') True (JStr ''minizinc'') JNull
          (JStr ''minimize'') None) ! 0) \<and>
   \<not> call_refresh (snd (execute_actions (\<lambda>history call. Inr (JObj [(''ok'', JBool True)]))
          [\<lparr>name = ''summary'', objective = None, pricing_url = None\<rparr>,
           \<lparr>name = ''optimal'', objective = None,
              pricing_url = Some ''https://example.com/pricing''\<rparr>]
          (JStr ''https://example.com/pricing'') True (JStr ''minizinc'') JNull
          (JStr ''minimize'') None) ! 1)"
proof -
  define W :: workflow where "W = (\<lambda>history call. Inr (JObj [(''ok'', JBool True)]))"
  define A where "A = [\<lparr>name = ''summary'', objective = None, pricing_url = None\<rparr>,
           \<lparr>name = ''optimal'', objective = None,
              pricing_url = Some ''https://example.com/pricing''\<rparr>]"
  define U where "U = JStr ''https://example.com/pricing''"
  define R where "R = execute_actions W A U True (JStr ''minizinc'') JNull (JStr ''minimize'') None"
  have calls: "snd R = [RunSummary U None True,
        RunOptimal U JNull (JStr ''minizinc'') (JStr ''minimize'') False None]"
    by (simp add: R_def W_def A_def U_def execute_actions_def prepare_action_inputs_def
          action_reference_def run_single_action_def py_or_def of_opt_def truthy_opt_def
          Let_def)
  have r0: "action_reference (A ! 0) U = U" and r1: "action_reference (A ! 1) U = U"
    by (simp_all add: A_def U_def action_reference_def py_or_def of_opt_def)
  have t: "truthy U" by (simp add: U_def)
  have "execute_actions W A U True (JStr ''minizinc'') JNull (JStr ''minimize'') None
          = (fst R, snd R)"
    by (simp add: R_def)
  from execute_actions_refresh_dedup [OF this]
  have "True \<and> length (snd R) = 2 \<and> truthy (action_reference (A ! 0) U) \<and>
       action_reference (A ! 1) U = action_reference (A ! 0) U \<longrightarrow>
       call_refresh (snd R ! 0) \<and> \<not> call_refresh (snd R ! 1)"
    by blast
  with calls r0 r1 t have "call_refresh (snd R ! 0) \<and> \<not> call_refresh (snd R ! 1)"
    by simp
  with calls show ?thesis
    unfolding R_def W_def A_def U_def by simp
qed

section \<open>Properties of the context precondition\<close>

lemma parse_action_entry_name:
  "parse_action_entry entry = (Some a, w) \<Longrightarrow> name a \<in> ALLOWED_ACTIONS"
  by (auto simp: parse_action_entry_def split: json.splits if_splits prod.splits)

lemma normalize_entries_names:
  "a \<in> set (fst (normalize_entries es)) \<Longrightarrow> name a \<in> ALLOWED_ACTIONS"
proof (induction es)
  case Nil
  then show ?case by simp
next
  case (Cons entry rest)
  obtain p w where p: "parse_action_entry entry = (p, w)" by (cases "parse_action_entry entry")
  obtain n ws where n: "normalize_entries rest = (n, ws)" by (cases "normalize_entries rest")
  show ?case
  proof (cases p)
    case None
    with Cons p n show ?thesis by simp
  next
    case (Some b)
    with Cons p n have "a = b \<or> a \<in> set (fst (normalize_entries rest))" by simp
    then show ?thesis
      using Cons.IH parse_action_entry_name p Some by blast
  qed
qed

lemma normalize_actions_names:
  "a \<in> set (fst (normalize_actions raw)) \<Longrightarrow> name a \<in> ALLOWED_ACTIONS"
  by (auto simp: normalize_actions_def normalize_entries_names split: if_splits json.splits)

lemma ensure_pricing_context_fails:
  "a \<in> set actions \<Longrightarrow> \<forall>b\<in>set actions. name b \<in> ALLOWED_ACTIONS \<Longrightarrow>
   \<not> truthy (action_reference a url) \<Longrightarrow> \<not> truthy_opt yaml \<Longrightarrow>
   ensure_pricing_context actions url yaml \<in>
     {Inl (ValueError
        ''Running subscriptions or optimal analysis requires a pricing URL or an uploaded Pricing2Yaml file.''),
      Inl (ValueError
        ''A summary requires pricing context. Provide a pricing URL or Pricing2Yaml upload before running it.'')}"
proof (induction actions)
  case Nil
  then show ?case by simp
next
  case (Cons b rest)
  then show ?case
    by (auto simp: Let_def ALLOWED_ACTIONS_def)
qed

lemma execute_actions_missing_context:
  assumes "a \<in> set actions" and "\<forall>b\<in>set actions. name b \<in> ALLOWED_ACTIONS"
    and "\<not> truthy (action_reference a url)" and "\<not> truthy_opt yaml"
  shows "\<exists>m. execute_actions workflow actions url refresh solver filters od yaml
           = (Inl (ValueError m), [])"
proof -
  from assms(1) have ne: "actions \<noteq> []" by auto
  from ensure_pricing_context_fails [OF assms]
  obtain m where "ensure_pricing_context actions url yaml = Inl (ValueError m)" by blast
  with ne show ?thesis by (simp add: execute_actions_def)
qed

text \<open>
  Claim C7. Let the plan be a dictionary and let its normalized action list contain an
  action with no reference of its own, while the request-level resolved reference is
  absent (or empty) and no (non-empty) document content was supplied. Then
  \<open>execute_actions\<close> on that list, and with it \<open>handle_question\<close>, ends with a
  \<open>ValueError\<close> (the exception this code raises for an invalid request), and the list
  of calls dispatched to the workflow is empty.
\<close>

theorem handle_question_missing_context:
  assumes "a \<in> set (fst (normalize_actions (dict_get plan ''actions'')))"
    and "\<not> truthy_opt (pricing_url a)"
    and "\<not> truthy (resolve_pricing_reference (dict_get plan ''pricing_url'') incoming_url
                     yaml_content)"
    and "\<not> truthy_opt yaml_content"
  shows "(\<exists>m. execute_actions workflow (fst (normalize_actions (dict_get plan ''actions'')))
                (resolve_pricing_reference (dict_get plan ''pricing_url'') incoming_url
                   yaml_content)
                refresh solver filters od yaml_content
              = (Inl (ValueError m), [])) \<and>
         (\<exists>m. handle_question (Inr (JObj plan)) generate_answer workflow incoming_url
                yaml_content
              = (Inl (ValueError m), []))"
proof -
  let ?actions = "fst (normalize_actions (dict_get plan ''actions''))"
  let ?url = "resolve_pricing_reference (dict_get plan ''pricing_url'') incoming_url yaml_content"
  have names: "\<forall>b\<in>set ?actions. name b \<in> ALLOWED_ACTIONS"
    using normalize_actions_names by blast
  have ref: "\<not> truthy (action_reference a ?url)"
    using assms(2,3) by (simp add: action_reference_def py_or_def truthy_opt_def)
  have ex: "\<exists>m. execute_actions workflow ?actions ?url r s f d yaml_content
           = (Inl (ValueError m), [])" for r s f d
    by (rule execute_actions_missing_context [OF assms(1) names ref assms(4)])
  have "\<exists>m. handle_question (Inr (JObj plan)) generate_answer workflow incoming_url
                yaml_content = (Inl (ValueError m), [])"
  proof (cases "truthy (dict_get plan ''requires_uploaded_yaml'')")
    case True
    with assms(4) show ?thesis by (simp add: handle_question_def)
  next
    case False
    obtain m where "execute_actions workflow ?actions ?url
        (truthy (dict_get_default plan ''refresh'' (JBool False)))
        (dict_get_default plan ''solver'' (JStr ''minizinc''))
        (extract_filters (dict_get plan ''filters''))
        (dict_get_default plan ''objective'' (JStr ''minimize'')) yaml_content
           = (Inl (ValueError m), [])"
      using ex by blast
    with False show ?thesis by (simp add: handle_question_def Let_def)
  qed
  with ex show ?thesis by blast
qed

theorem handle_question_missing_context_witness:
  "\<lparr>name = ''optimal'', objective = None, pricing_url = None\<rparr>
     \<in> set (fst (normalize_actions (dict_get [(''actions'', JArr [JStr ''optimal''])] ''actions''))) \<and>
   \<not> truthy (resolve_pricing_reference
               (dict_get [(''actions'', JArr [JStr ''optimal''])] ''pricing_url'') None None) \<and>
   (\<exists>m. handle_question (Inr (JObj [(''actions'', JArr [JStr ''optimal''])]))
          (\<lambda>plan payload. Inr ''answer'') (\<lambda>history call. Inr (JObj [])) None None
        = (Inl (ValueError m), []))"
proof -
  have a: "\<lparr>name = ''optimal'', objective = None, pricing_url = None\<rparr>
     \<in> set (fst (normalize_actions (dict_get [(''actions'', JArr [JStr ''optimal''])] ''actions'')))"
    by (simp add: normalize_actions_def parse_action_entry_def ALLOWED_ACTIONS_def dict_get_def)
  have b: "\<not> truthy_opt (pricing_url \<lparr>name = ''optimal'', objective = None, pricing_url = None\<rparr>)"
    by (simp add: truthy_opt_def of_opt_def)
  have c: "\<not> truthy (resolve_pricing_reference
               (dict_get [(''actions'', JArr [JStr ''optimal''])] ''pricing_url'') None None)"
    by (simp add: resolve_pricing_reference_def dict_get_def py_or_def of_opt_def truthy_opt_def)
  have d: "\<not> truthy_opt None" by (simp add: truthy_opt_def of_opt_def)
  show ?thesis
    using a c handle_question_missing_context [OF a b c d] by blast
qed

section \<open>Properties of result aggregation\<close>

lemma execute_actions_single:
  "execute_actions workflow [a] url r s f od y = (Inr (results, lastp), calls) \<Longrightarrow>
   \<exists>call payload. calls = [call] \<and> workflow [] call = Inr payload \<and>
      results = [step_record 0 a payload od (action_reference a url)] \<and> lastp = payload"
  by (auto simp: execute_actions_def Let_def split: sum.splits if_splits prod.splits
      dest: prepare_action_inputs_Inr)

lemma step_record_payload:
  "dict_get (step_record index a payload od u) ''payload'' = payload"
  by (simp add: step_record_def dict_get_def)

lemma compose_results_payload_single:
  "compose_results_payload actions [step_record index a payload od u] payload =
     (if payload = JNull then JObj [] else payload, JObj (step_record index a payload od u))"
  by (simp add: compose_results_payload_def step_record_payload py_or_def Let_def)

lemma size_dict_value: "(k, v) \<in> set kvs \<Longrightarrow> size v < size (JObj kvs)"
  by (induction kvs) auto

lemma step_record_not_payload: "JObj (step_record index a payload od u) \<noteq> payload"
proof
  assume eq: "JObj (step_record index a payload od u) = payload"
  have "(''payload'', payload) \<in> set (step_record index a payload od u)"
    by (simp add: step_record_def)
  then have "size payload < size (JObj (step_record index a payload od u))"
    by (rule size_dict_value)
  with eq show False by simp
qed

text \<open>
  Claim C1 says that for a plan of exactly one action the caller-facing result is that
  action's raw payload, with no wrapping object. For the plan \<open>{"actions": ["summary"],
  "pricing_url": "https://example.com/pricing"}\<close> and a workflow that answers with the
  payload \<open>{"summary": "three plans"}\<close>, the \<open>result\<close> that \<open>handle_question\<close>
  returns is the step record \<open>{"index": 0, "action": "summary", "payload": {...},
  "url": ...}\<close>, which wraps the payload.
\<close>

theorem handle_question_single_result_counterexample:
  "handle_question
     (Inr (JObj [(''actions'', JArr [JStr ''summary'']),
                 (''pricing_url'', JStr ''https://example.com/pricing'')]))
     (\<lambda>plan payload. Inr ''answer'')
     (\<lambda>history call. Inr (JObj [(''summary'', JStr ''three plans'')]))
     None None
   = (Inr (JObj [(''plan'', JObj [(''actions'', JArr [JStr ''summary'']),
                                  (''pricing_url'', JStr ''https://example.com/pricing'')]),
                 (''result'', JObj [(''index'', JInt 0), (''action'', JStr ''summary''),
                                    (''payload'', JObj [(''summary'', JStr ''three plans'')]),
                                    (''url'', JStr ''https://example.com/pricing'')]),
                 (''answer'', JStr ''answer'')]),
      [RunSummary (JStr ''https://example.com/pricing'') None False]) \<and>
   JObj [(''index'', JInt 0), (''action'', JStr ''summary''),
         (''payload'', JObj [(''summary'', JStr ''three plans'')]),
         (''url'', JStr ''https://example.com/pricing'')]
     \<noteq> JObj [(''summary'', JStr ''three plans'')]"
  by (simp add: handle_question_def normalize_actions_def parse_action_entry_def
        ALLOWED_ACTIONS_def dict_get_def dict_get_default_def extract_filters_def
        resolve_pricing_reference_def py_or_def of_opt_def truthy_opt_def
        execute_actions_def action_reference_def prepare_action_inputs_def
        run_single_action_def step_record_def compose_results_payload_def Let_def)

text \<open>
  Claim C1, amended. Whenever the normalized plan is exactly one action and
  \<open>handle_question\<close> returns, exactly one call was dispatched, and with \<open>payload\<close>
  what the workflow answered to it: the answer-context payload handed to the answer
  generation is \<open>payload\<close> itself (an empty dictionary when the payload is \<open>None\<close>),
  and the caller-facing \<open>result\<close> is the step record of that action (index 0, the
  action's name, the payload, the objective of an \<open>optimal\<close> step, the reference when
  there is one). The record's \<open>payload\<close> field is \<open>payload\<close>; the record itself is
  never equal to it.
\<close>

theorem handle_question_single_action:
  assumes "fst (normalize_actions (dict_get plan ''actions'')) = [a]"
    and "handle_question (Inr (JObj plan)) generate_answer workflow incoming_url yaml_content
           = (Inr response, calls)"
  shows "\<exists>call payload answer.
      calls = [call] \<and> workflow [] call = Inr payload \<and>
      generate_answer (JObj plan) (if payload = JNull then JObj [] else payload) = Inr answer \<and>
      response =
        JObj [(''plan'', JObj plan),
              (''result'',
                 JObj (step_record 0 a payload
                   (dict_get_default plan ''objective'' (JStr ''minimize''))
                   (action_reference a
                      (resolve_pricing_reference (dict_get plan ''pricing_url'') incoming_url
                         yaml_content)))),
              (''answer'', JStr answer)] \<and>
      dict_get (step_record 0 a payload
                   (dict_get_default plan ''objective'' (JStr ''minimize''))
                   (action_reference a
                      (resolve_pricing_reference (dict_get plan ''pricing_url'') incoming_url
                         yaml_content))) ''payload'' = payload \<and>
      JObj (step_record 0 a payload
                   (dict_get_default plan ''objective'' (JStr ''minimize''))
                   (action_reference a
                      (resolve_pricing_reference (dict_get plan ''pricing_url'') incoming_url
                         yaml_content))) \<noteq> payload"
proof -
  let ?url = "resolve_pricing_reference (dict_get plan ''pricing_url'') incoming_url yaml_content"
  let ?od = "dict_get_default plan ''objective'' (JStr ''minimize'')"
  let ?ex = "execute_actions workflow [a] ?url
        (truthy (dict_get_default plan ''refresh'' (JBool False)))
        (dict_get_default plan ''solver'' (JStr ''minizinc''))
        (extract_filters (dict_get plan ''filters'')) ?od yaml_content"
  obtain outcome cs where ex: "?ex = (outcome, cs)" by (cases ?ex)
  from assms(2) have nochk:
    "\<not> (truthy (dict_get plan ''requires_uploaded_yaml'') \<and> \<not> truthy_opt yaml_content)"
    by (cases "truthy (dict_get plan ''requires_uploaded_yaml'') \<and> \<not> truthy_opt yaml_content")
       (simp_all add: handle_question_def)
  from assms ex nochk obtain results lastp where
    out: "outcome = Inr (results, lastp)" and cs: "cs = calls"
    by (cases outcome) (auto simp: handle_question_def Let_def split: prod.splits sum.splits)
  from execute_actions_single [OF ex [unfolded out]]
  obtain call payload where c: "cs = [call]" and w: "workflow [] call = Inr payload"
    and r: "results = [step_record 0 a payload ?od (action_reference a ?url)]"
    and l: "lastp = payload"
    by blast
  from assms ex nochk out r l
  obtain answer where
    ans: "generate_answer (JObj plan) (if payload = JNull then JObj [] else payload) = Inr answer"
    and resp: "response = JObj [(''plan'', JObj plan),
              (''result'', JObj (step_record 0 a payload ?od (action_reference a ?url))),
              (''answer'', JStr answer)]"
    by (auto simp: handle_question_def Let_def compose_results_payload_single
          split: sum.splits if_splits)
  show ?thesis
    using c cs w ans resp step_record_payload step_record_not_payload by blast
qed

theorem handle_question_single_action_witness:
  "fst (normalize_actions (dict_get [(''actions'', JArr [JObj [(''name'', JStr ''optimal''), (''objective'', JStr ''maximize'')]]), (''pricing_url'', JStr ''https://example.com/pricing'')] ''actions'')) = [\<lparr>name = ''optimal'', objective = Some ''maximize'', pricing_url = None\<rparr>] \<and>
   handle_question (Inr (JObj [(''actions'', JArr [JObj [(''name'', JStr ''optimal''), (''objective'', JStr ''maximize'')]]), (''pricing_url'', JStr ''https://example.com/pricing'')])) ((\<lambda>plan payload. Inr ''answer'') :: json \<Rightarrow> json \<Rightarrow> exn + string) ((\<lambda>history call. Inr (JObj [(''cost'', JInt 5)])) :: workflow) None None
     = (Inr (JObj [(''plan'', JObj [(''actions'', JArr [JObj [(''name'', JStr ''optimal''), (''objective'', JStr ''maximize'')]]), (''pricing_url'', JStr ''https://example.com/pricing'')]),
              (''result'', JObj [(''index'', JInt 0), (''action'', JStr ''optimal''),
                                 (''payload'', JObj [(''cost'', JInt 5)]),
                                 (''objective'', JStr ''maximize''),
                                 (''url'', JStr ''https://example.com/pricing'')]),
              (''answer'', JStr ''answer'')]), [RunOptimal (JStr ''https://example.com/pricing'') JNull (JStr ''minizinc'') (JStr ''maximize'') False None]) \<and>
   (\<exists>call payload answer.
      [RunOptimal (JStr ''https://example.com/pricing'') JNull (JStr ''minizinc'') (JStr ''maximize'') False None] = [call] \<and> ((\<lambda>history call. Inr (JObj [(''cost'', JInt 5)])) :: workflow) [] call = Inr payload \<and>
      ((\<lambda>plan payload. Inr ''answer'') :: json \<Rightarrow> json \<Rightarrow> exn + string) (JObj [(''actions'', JArr [JObj [(''name'', JStr ''optimal''), (''objective'', JStr ''maximize'')]]), (''pricing_url'', JStr ''https://example.com/pricing'')]) (if payload = JNull then JObj [] else payload) = Inr answer \<and>
      JObj [(''plan'', JObj [(''actions'', JArr [JObj [(''name'', JStr ''optimal''), (''objective'', JStr ''maximize'')]]), (''pricing_url'', JStr ''https://example.com/pricing'')]),
              (''result'', JObj [(''index'', JInt 0), (''action'', JStr ''optimal''),
                                 (''payload'', JObj [(''cost'', JInt 5)]),
                                 (''objective'', JStr ''maximize''),
                                 (''url'', JStr ''https://example.com/pricing'')]),
              (''answer'', JStr ''answer'')] =
        JObj [(''plan'', JObj [(''actions'', JArr [JObj [(''name'', JStr ''optimal''), (''objective'', JStr ''maximize'')]]), (''pricing_url'', JStr ''https://example.com/pricing'')]),
              (''result'',
                 JObj (step_record 0 \<lparr>name = ''optimal'', objective = Some ''maximize'', pricing_url = None\<rparr> payload
                   (dict_get_default [(''actions'', JArr [JObj [(''name'', JStr ''optimal''), (''objective'', JStr ''maximize'')]]), (''pricing_url'', JStr ''https://example.com/pricing'')] ''objective'' (JStr ''minimize''))
                   (action_reference \<lparr>name = ''optimal'', objective = Some ''maximize'', pricing_url = None\<rparr>
                      (resolve_pricing_reference (dict_get [(''actions'', JArr [JObj [(''name'', JStr ''optimal''), (''objective'', JStr ''maximize'')]]), (''pricing_url'', JStr ''https://example.com/pricing'')] ''pricing_url'') None None)))),
              (''answer'', JStr answer)] \<and>
      dict_get (step_record 0 \<lparr>name = ''optimal'', objective = Some ''maximize'', pricing_url = None\<rparr> payload
                   (dict_get_default [(''actions'', JArr [JObj [(''name'', JStr ''optimal''), (''objective'', JStr ''maximize'')]]), (''pricing_url'', JStr ''https://example.com/pricing'')] ''objective'' (JStr ''minimize''))
                   (action_reference \<lparr>name = ''optimal'', objective = Some ''maximize'', pricing_url = None\<rparr>
                      (resolve_pricing_reference (dict_get [(''actions'', JArr [JObj [(''name'', JStr ''optimal''), (''objective'', JStr ''maximize'')]]), (''pricing_url'', JStr ''https://example.com/pricing'')] ''pricing_url'') None None))) ''payload'' = payload \<and>
      JObj (step_record 0 \<lparr>name = ''optimal'', objective = Some ''maximize'', pricing_url = None\<rparr> payload
                   (dict_get_default [(''actions'', JArr [JObj [(''name'', JStr ''optimal''), (''objective'', JStr ''maximize'')]]), (''pricing_url'', JStr ''https://example.com/pricing'')] ''objective'' (JStr ''minimize''))
                   (action_reference \<lparr>name = ''optimal'', objective = Some ''maximize'', pricing_url = None\<rparr>
                      (resolve_pricing_reference (dict_get [(''actions'', JArr [JObj [(''name'', JStr ''optimal''), (''objective'', JStr ''maximize'')]]), (''pricing_url'', JStr ''https://example.com/pricing'')] ''pricing_url'') None None))) \<noteq> payload)"
proof -
  have n: "fst (normalize_actions (dict_get [(''actions'', JArr [JObj [(''name'', JStr ''optimal''), (''objective'', JStr ''maximize'')]]), (''pricing_url'', JStr ''https://example.com/pricing'')] ''actions'')) = [\<lparr>name = ''optimal'', objective = Some ''maximize'', pricing_url = None\<rparr>]"
    by (simp add: normalize_actions_def parse_action_entry_def ALLOWED_ACTIONS_def
          dict_get_def py_or_def)
  have h: "handle_question (Inr (JObj [(''actions'', JArr [JObj [(''name'', JStr ''optimal''), (''objective'', JStr ''maximize'')]]), (''pricing_url'', JStr ''https://example.com/pricing'')])) ((\<lambda>plan payload. Inr ''answer'') :: json \<Rightarrow> json \<Rightarrow> exn + string) ((\<lambda>history call. Inr (JObj [(''cost'', JInt 5)])) :: workflow) None None
     = (Inr (JObj [(''plan'', JObj [(''actions'', JArr [JObj [(''name'', JStr ''optimal''), (''objective'', JStr ''maximize'')]]), (''pricing_url'', JStr ''https://example.com/pricing'')]),
              (''result'', JObj [(''index'', JInt 0), (''action'', JStr ''optimal''),
                                 (''payload'', JObj [(''cost'', JInt 5)]),
                                 (''objective'', JStr ''maximize''),
                                 (''url'', JStr ''https://example.com/pricing'')]),
              (''answer'', JStr ''answer'')]), [RunOptimal (JStr ''https://example.com/pricing'') JNull (JStr ''minizinc'') (JStr ''maximize'') False None])"
    by (simp add: handle_question_def normalize_actions_def parse_action_entry_def
        ALLOWED_ACTIONS_def dict_get_def dict_get_default_def extract_filters_def
        resolve_pricing_reference_def py_or_def of_opt_def truthy_opt_def
        execute_actions_def action_reference_def prepare_action_inputs_def
        run_single_action_def step_record_def compose_results_payload_def Let_def)
  show ?thesis
  proof (intro conjI)
    show "fst (normalize_actions (dict_get [(''actions'', JArr [JObj [(''name'', JStr ''optimal''), (''objective'', JStr ''maximize'')]]), (''pricing_url'', JStr ''https://example.com/pricing'')] ''actions'')) = [\<lparr>name = ''optimal'', objective = Some ''maximize'', pricing_url = None\<rparr>]" by (rule n)
    show "handle_question (Inr (JObj [(''actions'', JArr [JObj [(''name'', JStr ''optimal''), (''objective'', JStr ''maximize'')]]), (''pricing_url'', JStr ''https://example.com/pricing'')])) ((\<lambda>plan payload. Inr ''answer'') :: json \<Rightarrow> json \<Rightarrow> exn + string) ((\<lambda>history call. Inr (JObj [(''cost'', JInt 5)])) :: workflow) None None
     = (Inr (JObj [(''plan'', JObj [(''actions'', JArr [JObj [(''name'', JStr ''optimal''), (''objective'', JStr ''maximize'')]]), (''pricing_url'', JStr ''https://example.com/pricing'')]),
              (''result'', JObj [(''index'', JInt 0), (''action'', JStr ''optimal''),
                                 (''payload'', JObj [(''cost'', JInt 5)]),
                                 (''objective'', JStr ''maximize''),
                                 (''url'', JStr ''https://example.com/pricing'')]),
              (''answer'', JStr ''answer'')]), [RunOptimal (JStr ''https://example.com/pricing'') JNull (JStr ''minizinc'') (JStr ''maximize'') False None])" by (rule h)
  next
    show "(\<exists>call payload answer.
      [RunOptimal (JStr ''https://example.com/pricing'') JNull (JStr ''minizinc'') (JStr ''maximize'') False None] = [call] \<and> ((\<lambda>history call. Inr (JObj [(''cost'', JInt 5)])) :: workflow) [] call = Inr payload \<and>
      ((\<lambda>plan payload. Inr ''answer'') :: json \<Rightarrow> json \<Rightarrow> exn + string) (JObj [(''actions'', JArr [JObj [(''name'', JStr ''optimal''), (''objective'', JStr ''maximize'')]]), (''pricing_url'', JStr ''https://example.com/pricing'')]) (if payload = JNull then JObj [] else payload) = Inr answer \<and>
      JObj [(''plan'', JObj [(''actions'', JArr [JObj [(''name'', JStr ''optimal''), (''objective'', JStr ''maximize'')]]), (''pricing_url'', JStr ''https://example.com/pricing'')]),
              (''result'', JObj [(''index'', JInt 0), (''action'', JStr ''optimal''),
                                 (''payload'', JObj [(''cost'', JInt 5)]),
                                 (''objective'', JStr ''maximize''),
                                 (''url'', JStr ''https://example.com/pricing'')]),
              (''answer'', JStr ''answer'')] =
        JObj [(''plan'', JObj [(''actions'', JArr [JObj [(''name'', JStr ''optimal''), (''objective'', JStr ''maximize'')]]), (''pricing_url'', JStr ''https://example.com/pricing'')]),
              (''result'',
                 JObj (step_record 0 \<lparr>name = ''optimal'', objective = Some ''maximize'', pricing_url = None\<rparr> payload
                   (dict_get_default [(''actions'', JArr [JObj [(''name'', JStr ''optimal''), (''objective'', JStr ''maximize'')]]), (''pricing_url'', JStr ''https://example.com/pricing'')] ''objective'' (JStr ''minimize''))
                   (action_reference \<lparr>name = ''optimal'', objective = Some ''maximize'', pricing_url = None\<rparr>
                      (resolve_pricing_reference (dict_get [(''actions'', JArr [JObj [(''name'', JStr ''optimal''), (''objective'', JStr ''maximize'')]]), (''pricing_url'', JStr ''https://example.com/pricing'')] ''pricing_url'') None None)))),
              (''answer'', JStr answer)] \<and>
      dict_get (step_record 0 \<lparr>name = ''optimal'', objective = Some ''maximize'', pricing_url = None\<rparr> payload
                   (dict_get_default [(''actions'', JArr [JObj [(''name'', JStr ''optimal''), (''objective'', JStr ''maximize'')]]), (''pricing_url'', JStr ''https://example.com/pricing'')] ''objective'' (JStr ''minimize''))
                   (action_reference \<lparr>name = ''optimal'', objective = Some ''maximize'', pricing_url = None\<rparr>
                      (resolve_pricing_reference (dict_get [(''actions'', JArr [JObj [(''name'', JStr ''optimal''), (''objective'', JStr ''maximize'')]]), (''pricing_url'', JStr ''https://example.com/pricing'')] ''pricing_url'') None None))) ''payload'' = payload \<and>
      JObj (step_record 0 \<lparr>name = ''optimal'', objective = Some ''maximize'', pricing_url = None\<rparr> payload
                   (dict_get_default [(''actions'', JArr [JObj [(''name'', JStr ''optimal''), (''objective'', JStr ''maximize'')]]), (''pricing_url'', JStr ''https://example.com/pricing'')] ''objective'' (JStr ''minimize''))
                   (action_reference \<lparr>name = ''optimal'', objective = Some ''maximize'', pricing_url = None\<rparr>
                      (resolve_pricing_reference (dict_get [(''actions'', JArr [JObj [(''name'', JStr ''optimal''), (''objective'', JStr ''maximize'')]]), (''pricing_url'', JStr ''https://example.com/pricing'')] ''pricing_url'') None None))) \<noteq> payload)" (is "\<exists>call payload answer. ?P call payload answer")
      using handle_question_single_action [OF n h] .
  qed
qed

section \<open>Properties of the completion client\<close>

lemma attempt_loop_exhausted:
  "no_attempt_accepted send loads dumps config p json r attempt state \<Longrightarrow>
   max_tries = attempt + int r - 1 \<Longrightarrow>
   \<exists>calls states.
     attempt_loop send loads dumps config p max_tries json attempt state
       = (Inl (ValueError ''Could not obtain a complete response from the LLM.''), calls, states) \<and>
     length calls = r \<and> length states = r"
proof (induction r arbitrary: attempt state)
  case 0
  then have "max_tries < attempt" by simp
  then show ?case by (subst attempt_loop.simps) simp
next
  case (Suc r)
  from Suc.prems(1) obtain state' where
    step: "step_generation send attempt state = Inr state'"
    and rej: "try_finalize loads dumps state' json = None"
    and rest: "no_attempt_accepted send loads dumps config p json r (attempt + 1)
                 (prepare_retry config state' p)"
    by (auto split: sum.splits)
  from Suc.prems(2) have le: "\<not> max_tries < attempt" by simp
  show ?case
  proof (cases "attempt = max_tries")
    case True
    with Suc.prems(2) have "r = 0" by simp
    with True step rej le show ?thesis
      by (subst attempt_loop.simps) simp
  next
    case False
    from Suc.prems(2) have "max_tries = (attempt + 1) + int r - 1" by simp
    from Suc.IH [OF rest this] obtain calls states where
      rec: "attempt_loop send loads dumps config p max_tries json (attempt + 1)
              (prepare_retry config state' p)
            = (Inl (ValueError ''Could not obtain a complete response from the LLM.''), calls, states)"
      and len: "length calls = r" "length states = r"
      by blast
    have "attempt_loop send loads dumps config p max_tries json attempt state
       = (Inl (ValueError ''Could not obtain a complete response from the LLM.''),
          (prompt state, model state) # calls, state' # states)"
      using False step rej le rec by (subst attempt_loop.simps) simp
    with len show ?thesis by simp
  qed
qed

lemma truncated_never_accepted:
  assumes "\<forall>a pr m. \<exists>t. send a pr m = Inr (t, ''length'')"
  shows "no_attempt_accepted send loads dumps config p False r attempt st"
proof (induction r arbitrary: attempt st)
  case 0
  then show ?case by simp
next
  case (Suc r attempt st)
  from assms obtain t where "send attempt (prompt st) (model st) = Inr (t, ''length'')"
    by blast
  then show ?case
    using Suc.IH by (simp add: step_generation_def try_finalize_def)
qed

lemma unparseable_never_accepted:
  assumes "\<forall>a pr m. \<exists>t f. send a pr m = Inr (t, f)" and "\<forall>s. loads s = None"
  shows "no_attempt_accepted send loads dumps config p True r attempt st"
proof (induction r arbitrary: attempt st)
  case 0
  then show ?case by simp
next
  case (Suc r attempt st)
  from assms obtain t f where "send attempt (prompt st) (model st) = Inr (t, f)"
    by blast
  then show ?case
    using Suc.IH assms(2) by (simp add: step_generation_def try_finalize_def)
qed

text \<open>
  Claim C5. If none of the \<open>max_tries\<close> attempts of a call produces an acceptable
  response (every attempt gets a reply, and the accumulated text does not parse when
  structured output is required, or the finish reason is \<open>length\<close> when it is not),
  then \<open>make_full_request\<close> raises the \<open>ValueError\<close> "Could not obtain a complete
  response from the LLM." (the exhaustion error of this code), and the requests it has
  sent are exactly \<open>max_tries\<close> (none when \<open>max_tries\<close> is not positive): the call
  ends there, so none follows.
\<close>

theorem make_full_request_exhausted:
  assumes "no_attempt_accepted send loads dumps config initial_prompt json_output (nat max_tries) 1
             \<lparr>prompt = initial_prompt, model = config_model config, accumulated = [],
              finish_reason = [], use_better_model = False\<rparr>"
  shows "\<exists>calls states.
     make_full_request send loads dumps config initial_prompt max_tries json_output
       = (Inl (ValueError ''Could not obtain a complete response from the LLM.''), calls, states) \<and>
     length calls = nat max_tries \<and> length states = nat max_tries"
proof (cases "0 \<le> max_tries")
  case True
  then have "max_tries = 1 + int (nat max_tries) - 1" by simp
  from attempt_loop_exhausted [OF assms this] show ?thesis
    by (simp add: make_full_request_def)
next
  case False
  then have "max_tries < 1" "nat max_tries = 0" by simp_all
  then show ?thesis
    by (simp add: make_full_request_def attempt_loop.simps)
qed

lemma normalize_response_partial: "normalize_response ''partial'' = ''partial''"
  by (simp add: normalize_response_def strip_def isspace_def startswith_def endswith_def)

theorem make_full_request_exhausted_witness:
  "no_attempt_accepted ((\<lambda>attempt prompt model. Inr (''partial'', ''length'')) :: sender) (\<lambda>s. None) (\<lambda>j. '''')
      \<lparr>config_model = ''flash'', config_better_model = Some ''pro''\<rparr> ''Q'' False (nat 3) 1
      \<lparr>prompt = ''Q'', model = config_model \<lparr>config_model = ''flash'', config_better_model = Some ''pro''\<rparr>,
       accumulated = [], finish_reason = [], use_better_model = False\<rparr> \<and>
   (\<exists>calls states.
      make_full_request ((\<lambda>attempt prompt model. Inr (''partial'', ''length'')) :: sender) (\<lambda>s. None) (\<lambda>j. '''')
        \<lparr>config_model = ''flash'', config_better_model = Some ''pro''\<rparr> ''Q'' 3 False
        = (Inl (ValueError ''Could not obtain a complete response from the LLM.''), calls, states) \<and>
      length calls = nat 3 \<and> length states = nat 3)"
proof -
  have h: "no_attempt_accepted ((\<lambda>attempt prompt model. Inr (''partial'', ''length'')) :: sender) (\<lambda>s. None) (\<lambda>j. '''')
      \<lparr>config_model = ''flash'', config_better_model = Some ''pro''\<rparr> ''Q'' False (nat 3) 1
      \<lparr>prompt = ''Q'', model = config_model \<lparr>config_model = ''flash'', config_better_model = Some ''pro''\<rparr>,
       accumulated = [], finish_reason = [], use_better_model = False\<rparr>"
    by (simp add: numeral_3_eq_3 step_generation_def try_finalize_def normalize_response_partial)
  show ?thesis
  proof (intro conjI)
    show "no_attempt_accepted ((\<lambda>attempt prompt model. Inr (''partial'', ''length'')) :: sender) (\<lambda>s. None) (\<lambda>j. '''')
      \<lparr>config_model = ''flash'', config_better_model = Some ''pro''\<rparr> ''Q'' False (nat 3) 1
      \<lparr>prompt = ''Q'', model = config_model \<lparr>config_model = ''flash'', config_better_model = Some ''pro''\<rparr>,
       accumulated = [], finish_reason = [], use_better_model = False\<rparr>" by (rule h)
    show "\<exists>calls states.
      make_full_request ((\<lambda>attempt prompt model. Inr (''partial'', ''length'')) :: sender) (\<lambda>s. None) (\<lambda>j. '''')
        \<lparr>config_model = ''flash'', config_better_model = Some ''pro''\<rparr> ''Q'' 3 False
        = (Inl (ValueError ''Could not obtain a complete response from the LLM.''), calls, states) \<and>
      length calls = nat 3 \<and> length states = nat 3"
      by (rule make_full_request_exhausted [OF h])
  qed
qed

lemma prepare_retry_escalates:
  "escalation_available config st \<Longrightarrow>
   \<exists>better. config_better_model config = Some better \<and> better \<noteq> [] \<and>
     prepare_retry config st p =
       \<lparr>prompt = p, model = better, accumulated = [], finish_reason = [],
        use_better_model = True\<rparr>"
  by (auto simp: escalation_available_def prepare_retry_def truthy_opt_def of_opt_def
      split: option.splits)

lemma prepare_retry_continues:
  "\<not> escalation_available config st \<Longrightarrow>
   prepare_retry config st p =
     \<lparr>prompt = build_continue_prompt p (accumulated st), model = model st,
      accumulated = accumulated st, finish_reason = [],
      use_better_model = use_better_model st\<rparr>"
  by (auto simp: escalation_available_def prepare_retry_def truthy_opt_def of_opt_def
      split: option.splits)

lemma prepare_retry_no_second_escalation:
  "\<not> escalation_available config (prepare_retry config st p)"
proof (cases "escalation_available config st")
  case True
  from prepare_retry_escalates [OF True, of p] show ?thesis
    by (auto simp: escalation_available_def)
next
  case False
  then show ?thesis
    by (simp add: prepare_retry_continues) (simp add: escalation_available_def)
qed

lemma step_generation_flag:
  "step_generation send attempt st = Inr st' \<Longrightarrow>
   use_better_model st' = use_better_model st \<and> prompt st' = prompt st \<and> model st' = model st"
  by (auto simp: step_generation_def split: sum.splits prod.splits)

lemma attempt_loop_no_escalation:
  "attempt_loop send loads dumps config p max_tries json attempt st = (outcome, calls, states) \<Longrightarrow>
   \<not> escalation_available config st \<Longrightarrow>
   \<forall>s\<in>set states. \<not> escalation_available config s"
proof (induction "nat (max_tries + 1 - attempt)" arbitrary: attempt st outcome calls states)
  case 0
  then have "max_tries < attempt" by simp
  with "0.prems"(1) have "states = []"
    by (subst (asm) attempt_loop.simps) simp
  then show ?case by simp
next
  case (Suc n)
  from Suc.hyps(2) have le: "\<not> max_tries < attempt" by simp
  show ?case
  proof (cases "step_generation send attempt st")
    case (Inl e)
    with Suc.prems(1) le have "states = []"
      by (subst (asm) attempt_loop.simps) simp
    then show ?thesis by simp
  next
    case (Inr st')
    then have flag: "use_better_model st' = use_better_model st"
      using step_generation_flag by blast
    with Suc.prems(2) have ne: "\<not> escalation_available config st'"
      by (simp add: escalation_available_def)
    show ?thesis
    proof (cases "try_finalize loads dumps st' json = None \<and> attempt \<noteq> max_tries")
      case False
      with Suc.prems(1) le Inr have "states = [st']"
        by (subst (asm) attempt_loop.simps) (auto split: option.splits if_splits)
      with ne show ?thesis by simp
    next
      case True
      obtain outcome' calls' states' where rec:
        "attempt_loop send loads dumps config p max_tries json (attempt + 1)
           (prepare_retry config st' p) = (outcome', calls', states')"
        by (cases "attempt_loop send loads dumps config p max_tries json (attempt + 1)
           (prepare_retry config st' p)") auto
      from Suc.prems(1) le Inr True rec have st: "states = st' # states'"
        by (subst (asm) attempt_loop.simps) simp
      from Suc.hyps(2) have n: "n = nat (max_tries + 1 - (attempt + 1))" by simp
      have "\<forall>s\<in>set states'. \<not> escalation_available config s"
        by (rule Suc.hyps(1) [OF n rec prepare_retry_no_second_escalation])
      with st ne show ?thesis by simp
    qed
  qed
qed

lemma attempt_loop_next_call:
  "attempt_loop send loads dumps config p max_tries json attempt st = (outcome, calls, states) \<Longrightarrow>
   \<forall>i. Suc i < length calls \<longrightarrow>
     i < length states \<and>
     calls ! Suc i = (prompt (prepare_retry config (states ! i) p),
                      model (prepare_retry config (states ! i) p))"
proof (induction "nat (max_tries + 1 - attempt)" arbitrary: attempt st outcome calls states)
  case 0
  then have "max_tries < attempt" by simp
  with "0.prems"(1) have "calls = []"
    by (subst (asm) attempt_loop.simps) simp
  then show ?case by simp
next
  case (Suc n)
  from Suc.hyps(2) have le: "\<not> max_tries < attempt" by simp
  show ?case
  proof (cases "step_generation send attempt st")
    case (Inl e)
    with Suc.prems(1) le have "calls = [(prompt st, model st)]"
      by (subst (asm) attempt_loop.simps) simp
    then show ?thesis by simp
  next
    case (Inr st')
    show ?thesis
    proof (cases "try_finalize loads dumps st' json = None \<and> attempt \<noteq> max_tries")
      case False
      with Suc.prems(1) le Inr have "calls = [(prompt st, model st)]"
        by (subst (asm) attempt_loop.simps) (auto split: option.splits if_splits)
      then show ?thesis by simp
    next
      case True
      let ?next = "prepare_retry config st' p"
      obtain outcome' calls' states' where rec:
        "attempt_loop send loads dumps config p max_tries json (attempt + 1) ?next
           = (outcome', calls', states')"
        by (cases "attempt_loop send loads dumps config p max_tries json (attempt + 1) ?next") auto
      from Suc.prems(1) le Inr True rec
      have c: "calls = (prompt st, model st) # calls'" and s: "states = st' # states'"
        by (subst (asm) attempt_loop.simps; simp)+
      from Suc.hyps(2) have n: "n = nat (max_tries + 1 - (attempt + 1))" by simp
      note IH = Suc.hyps(1) [OF n rec]
      have first: "calls' \<noteq> [] \<Longrightarrow> calls' ! 0 = (prompt ?next, model ?next)"
        using rec by (subst (asm) attempt_loop.simps)
          (auto split: if_splits sum.splits option.splits prod.splits)
      show ?thesis
      proof (intro allI impI)
        fix i assume i: "Suc i < length calls"
        show "i < length states \<and>
              calls ! Suc i = (prompt (prepare_retry config (states ! i) p),
                               model (prepare_retry config (states ! i) p))"
        proof (cases i)
          case 0
          with i c have "calls' \<noteq> []" by auto
          with first 0 c s show ?thesis by simp
        next
          case (Suc k)
          with i c have "Suc k < length calls'" by simp
          with IH have "k < length states' \<and>
              calls' ! Suc k = (prompt (prepare_retry config (states' ! k) p),
                                model (prepare_retry config (states' ! k) p))"
            by blast
          with Suc c s show ?thesis by simp
        qed
      qed
    qed
  qed
qed

lemma attempt_loop_later_states:
  assumes "attempt_loop send loads dumps config p max_tries json attempt st = (outcome, calls, states)"
  shows "\<forall>j. 0 < j \<and> j < length states \<longrightarrow> \<not> escalation_available config (states ! j)"
proof (cases "max_tries < attempt")
  case True
  with assms have "states = []" by (subst (asm) attempt_loop.simps) simp
  then show ?thesis by simp
next
  case le: False
  show ?thesis
  proof (cases "step_generation send attempt st")
    case (Inl e)
    with assms le have "states = []" by (subst (asm) attempt_loop.simps) simp
    then show ?thesis by simp
  next
    case (Inr st')
    show ?thesis
    proof (cases "try_finalize loads dumps st' json = None \<and> attempt \<noteq> max_tries")
      case False
      with assms le Inr have "states = [st']"
        by (subst (asm) attempt_loop.simps) (auto split: option.splits if_splits)
      then show ?thesis by simp
    next
      case True
      obtain outcome' calls' states' where rec:
        "attempt_loop send loads dumps config p max_tries json (attempt + 1)
           (prepare_retry config st' p) = (outcome', calls', states')"
        by (cases "attempt_loop send loads dumps config p max_tries json (attempt + 1)
           (prepare_retry config st' p)") auto
      from assms le Inr True rec have st: "states = st' # states'"
        by (subst (asm) attempt_loop.simps) simp
      have "\<forall>s\<in>set states'. \<not> escalation_available config s"
        by (rule attempt_loop_no_escalation [OF rec prepare_retry_no_second_escalation])
      then show ?thesis
        using st by (auto simp: nth_Cons split: nat.splits)
    qed
  qed
qed

text \<open>
  Claim C2 makes the switch depend on a distinct higher-capability model being
  configured and not yet used, and says that otherwise the buffer is kept and a
  continuation prompt is sent. The source does not compare the two model names: with the
  better model configured to the very model in use, the first retry still takes the
  switching branch, which empties the buffer and restarts from the original prompt.
\<close>

theorem prepare_retry_same_model_counterexample:
  "config_better_model \<lparr>config_model = ''pro'', config_better_model = Some ''pro''\<rparr> = Some (config_model \<lparr>config_model = ''pro'', config_better_model = Some ''pro''\<rparr>) \<and>
   model \<lparr>prompt = ''Q'', model = ''pro'', accumulated = ''partial'', finish_reason = ''length'', use_better_model = False\<rparr> = config_model \<lparr>config_model = ''pro'', config_better_model = Some ''pro''\<rparr> \<and>
   prepare_retry \<lparr>config_model = ''pro'', config_better_model = Some ''pro''\<rparr> \<lparr>prompt = ''Q'', model = ''pro'', accumulated = ''partial'', finish_reason = ''length'', use_better_model = False\<rparr> ''Q'' = \<lparr>prompt = ''Q'', model = ''pro'', accumulated = [], finish_reason = [], use_better_model = True\<rparr> \<and>
   accumulated (prepare_retry \<lparr>config_model = ''pro'', config_better_model = Some ''pro''\<rparr> \<lparr>prompt = ''Q'', model = ''pro'', accumulated = ''partial'', finish_reason = ''length'', use_better_model = False\<rparr> ''Q'') \<noteq> accumulated \<lparr>prompt = ''Q'', model = ''pro'', accumulated = ''partial'', finish_reason = ''length'', use_better_model = False\<rparr> \<and>
   prompt (prepare_retry \<lparr>config_model = ''pro'', config_better_model = Some ''pro''\<rparr> \<lparr>prompt = ''Q'', model = ''pro'', accumulated = ''partial'', finish_reason = ''length'', use_better_model = False\<rparr> ''Q'') \<noteq> build_continue_prompt ''Q'' (accumulated \<lparr>prompt = ''Q'', model = ''pro'', accumulated = ''partial'', finish_reason = ''length'', use_better_model = False\<rparr>)"
  by (simp add: prepare_retry_def build_continue_prompt_def)

text \<open>
  Claim C2, amended. In \<open>prepare_retry\<close>: if a higher-capability model is configured
  (a non-empty name, whether or not it differs from the model in use) and the call has
  not switched to it yet, the next attempt uses that model, an empty buffer and the
  original prompt, and the switch is recorded; otherwise the next attempt keeps the
  model and the buffer, and its prompt is the continuation prompt, which embeds the
  original prompt and the accumulated text between fixed delimiters. In every run of
  \<open>make_full_request\<close> each request after the first is the one \<open>prepare_retry\<close> made
  from the state of the attempt before, and the switch is available in no state after
  the first: it happens at most once, at the first retry.
\<close>

theorem prepare_retry_escalation:
  "(escalation_available config st \<longrightarrow>
      (\<exists>better. config_better_model config = Some better \<and> better \<noteq> [] \<and>
         prepare_retry config st initial_prompt =
           \<lparr>prompt = initial_prompt, model = better, accumulated = [], finish_reason = [],
            use_better_model = True\<rparr>)) \<and>
   (\<not> escalation_available config st \<longrightarrow>
      prepare_retry config st initial_prompt =
        \<lparr>prompt = build_continue_prompt initial_prompt (accumulated st), model = model st,
         accumulated = accumulated st, finish_reason = [],
         use_better_model = use_better_model st\<rparr>) \<and>
   (\<exists>pre mid post. \<forall>p acc. build_continue_prompt p acc = pre @ p @ mid @ acc @ post) \<and>
   (make_full_request send loads dumps config initial_prompt max_tries json_output
      = (outcome, calls, states) \<longrightarrow>
      (\<forall>i. Suc i < length calls \<longrightarrow>
         i < length states \<and>
         calls ! Suc i = (prompt (prepare_retry config (states ! i) initial_prompt),
                          model (prepare_retry config (states ! i) initial_prompt))) \<and>
      (\<forall>j. 0 < j \<and> j < length states \<longrightarrow> \<not> escalation_available config (states ! j)))"
proof (intro conjI impI)
  assume "escalation_available config st"
  then show "\<exists>better. config_better_model config = Some better \<and> better \<noteq> [] \<and>
         prepare_retry config st initial_prompt =
           \<lparr>prompt = initial_prompt, model = better, accumulated = [], finish_reason = [],
            use_better_model = True\<rparr>"
    by (rule prepare_retry_escalates)
next
  assume "\<not> escalation_available config st"
  then show "prepare_retry config st initial_prompt =
        \<lparr>prompt = build_continue_prompt initial_prompt (accumulated st), model = model st,
         accumulated = accumulated st, finish_reason = [],
         use_better_model = use_better_model st\<rparr>"
    by (rule prepare_retry_continues)
next
  have "\<forall>p acc. build_continue_prompt p acc =
          (''The previous response was truncated. Resume exactly where it stopped.'' @
             [CHR 0x0A] @ ''<initial_prompt>'' @ [CHR 0x0A]) @ p @
          ([CHR 0x0A] @ ''</initial_prompt>'' @ [CHR 0x0A] @ ''<partial_response>'' @ [CHR 0x0A]) @
          acc @ ([CHR 0x0A] @ ''</partial_response>'')"
    by (simp add: build_continue_prompt_def)
  then show "\<exists>pre mid post. \<forall>p acc. build_continue_prompt p acc = pre @ p @ mid @ acc @ post"
    by blast
next
  assume run: "make_full_request send loads dumps config initial_prompt max_tries json_output
      = (outcome, calls, states)"
  show "\<forall>i. Suc i < length calls \<longrightarrow>
         i < length states \<and>
         calls ! Suc i = (prompt (prepare_retry config (states ! i) initial_prompt),
                          model (prepare_retry config (states ! i) initial_prompt))"
    using run unfolding make_full_request_def by (rule attempt_loop_next_call)
  show "\<forall>j. 0 < j \<and> j < length states \<longrightarrow> \<not> escalation_available config (states ! j)"
    using run unfolding make_full_request_def by (rule attempt_loop_later_states)
qed

theorem prepare_retry_escalation_witness:
  "escalation_available \<lparr>config_model = ''flash'', config_better_model = Some ''pro''\<rparr> \<lparr>prompt = ''Q'', model = ''flash'', accumulated = ''partial'', finish_reason = ''length'', use_better_model = False\<rparr> \<and>
   prepare_retry \<lparr>config_model = ''flash'', config_better_model = Some ''pro''\<rparr> \<lparr>prompt = ''Q'', model = ''flash'', accumulated = ''partial'', finish_reason = ''length'', use_better_model = False\<rparr> ''Q'' = \<lparr>prompt = ''Q'', model = ''pro'', accumulated = [], finish_reason = [], use_better_model = True\<rparr> \<and>
   \<not> escalation_available \<lparr>config_model = ''flash'', config_better_model = Some ''pro''\<rparr> \<lparr>prompt = ''Q'', model = ''pro'', accumulated = ''partial'', finish_reason = ''length'', use_better_model = True\<rparr> \<and>
   prepare_retry \<lparr>config_model = ''flash'', config_better_model = Some ''pro''\<rparr> \<lparr>prompt = ''Q'', model = ''pro'', accumulated = ''partial'', finish_reason = ''length'', use_better_model = True\<rparr> ''Q'' = \<lparr>prompt = build_continue_prompt ''Q'' ''partial'', model = ''pro'', accumulated = ''partial'', finish_reason = [], use_better_model = True\<rparr> \<and>
   make_full_request ((\<lambda>attempt prompt model. Inr (''partial'', ''length'')) :: sender) (\<lambda>s. None) (\<lambda>j. []) \<lparr>config_model = ''flash'', config_better_model = Some ''pro''\<rparr> ''Q'' 3 False
     = (Inl (ValueError ''Could not obtain a complete response from the LLM.''),
        [(''Q'', ''flash''), (''Q'', ''pro''), (build_continue_prompt ''Q'' ''partial'', ''pro'')],
        [\<lparr>prompt = ''Q'', model = ''flash'', accumulated = ''partial'', finish_reason = ''length'', use_better_model = False\<rparr>,
        \<lparr>prompt = ''Q'', model = ''pro'', accumulated = ''partial'', finish_reason = ''length'', use_better_model = True\<rparr>,
        \<lparr>prompt = build_continue_prompt ''Q'' ''partial'', model = ''pro'', accumulated = ''partialpartial'', finish_reason = ''length'', use_better_model = True\<rparr>]) \<and>
   [(''Q'', ''flash''), (''Q'', ''pro''), (build_continue_prompt ''Q'' ''partial'', ''pro'')] ! Suc 0 = (''Q'', ''pro'') \<and>
   \<not> escalation_available \<lparr>config_model = ''flash'', config_better_model = Some ''pro''\<rparr> ([\<lparr>prompt = ''Q'', model = ''flash'', accumulated = ''partial'', finish_reason = ''length'', use_better_model = False\<rparr>,
        \<lparr>prompt = ''Q'', model = ''pro'', accumulated = ''partial'', finish_reason = ''length'', use_better_model = True\<rparr>,
        \<lparr>prompt = build_continue_prompt ''Q'' ''partial'', model = ''pro'', accumulated = ''partialpartial'', finish_reason = ''length'', use_better_model = True\<rparr>] ! 1)"
proof -
  have e1: "escalation_available \<lparr>config_model = ''flash'', config_better_model = Some ''pro''\<rparr> \<lparr>prompt = ''Q'', model = ''flash'', accumulated = ''partial'', finish_reason = ''length'', use_better_model = False\<rparr>"
    by (simp add: escalation_available_def truthy_opt_def of_opt_def)
  have e2: "\<not> escalation_available \<lparr>config_model = ''flash'', config_better_model = Some ''pro''\<rparr> \<lparr>prompt = ''Q'', model = ''pro'', accumulated = ''partial'', finish_reason = ''length'', use_better_model = True\<rparr>"
    by (simp add: escalation_available_def truthy_opt_def of_opt_def)
  have h: "make_full_request ((\<lambda>attempt prompt model. Inr (''partial'', ''length'')) :: sender) (\<lambda>s. None) (\<lambda>j. []) \<lparr>config_model = ''flash'', config_better_model = Some ''pro''\<rparr> ''Q'' 3 False
     = (Inl (ValueError ''Could not obtain a complete response from the LLM.''),
        [(''Q'', ''flash''), (''Q'', ''pro''), (build_continue_prompt ''Q'' ''partial'', ''pro'')],
        [\<lparr>prompt = ''Q'', model = ''flash'', accumulated = ''partial'', finish_reason = ''length'', use_better_model = False\<rparr>,
        \<lparr>prompt = ''Q'', model = ''pro'', accumulated = ''partial'', finish_reason = ''length'', use_better_model = True\<rparr>,
        \<lparr>prompt = build_continue_prompt ''Q'' ''partial'', model = ''pro'', accumulated = ''partialpartial'', finish_reason = ''length'', use_better_model = True\<rparr>])"
    by (simp add: make_full_request_def attempt_loop.simps step_generation_def try_finalize_def
          prepare_retry_def normalize_response_partial)
  note t1 = prepare_retry_escalation
    [of "\<lparr>config_model = ''flash'', config_better_model = Some ''pro''\<rparr>" "\<lparr>prompt = ''Q'', model = ''flash'', accumulated = ''partial'', finish_reason = ''length'', use_better_model = False\<rparr>" "''Q''" "((\<lambda>attempt prompt model. Inr (''partial'', ''length'')) :: sender)" "\<lambda>s. None" "\<lambda>j. []" 3 False
        "Inl (ValueError ''Could not obtain a complete response from the LLM.'')" "[(''Q'', ''flash''), (''Q'', ''pro''), (build_continue_prompt ''Q'' ''partial'', ''pro'')]" "[\<lparr>prompt = ''Q'', model = ''flash'', accumulated = ''partial'', finish_reason = ''length'', use_better_model = False\<rparr>,
        \<lparr>prompt = ''Q'', model = ''pro'', accumulated = ''partial'', finish_reason = ''length'', use_better_model = True\<rparr>,
        \<lparr>prompt = build_continue_prompt ''Q'' ''partial'', model = ''pro'', accumulated = ''partialpartial'', finish_reason = ''length'', use_better_model = True\<rparr>]"]
  note t2 = prepare_retry_escalation
    [of "\<lparr>config_model = ''flash'', config_better_model = Some ''pro''\<rparr>" "\<lparr>prompt = ''Q'', model = ''pro'', accumulated = ''partial'', finish_reason = ''length'', use_better_model = True\<rparr>" "''Q''" "((\<lambda>attempt prompt model. Inr (''partial'', ''length'')) :: sender)" "\<lambda>s. None" "\<lambda>j. []" 3 False
        "Inl (ValueError ''Could not obtain a complete response from the LLM.'')" "[(''Q'', ''flash''), (''Q'', ''pro''), (build_continue_prompt ''Q'' ''partial'', ''pro'')]" "[\<lparr>prompt = ''Q'', model = ''flash'', accumulated = ''partial'', finish_reason = ''length'', use_better_model = False\<rparr>,
        \<lparr>prompt = ''Q'', model = ''pro'', accumulated = ''partial'', finish_reason = ''length'', use_better_model = True\<rparr>,
        \<lparr>prompt = build_continue_prompt ''Q'' ''partial'', model = ''pro'', accumulated = ''partialpartial'', finish_reason = ''length'', use_better_model = True\<rparr>]"]
  from t1 e1 have p1: "prepare_retry \<lparr>config_model = ''flash'', config_better_model = Some ''pro''\<rparr> \<lparr>prompt = ''Q'', model = ''flash'', accumulated = ''partial'', finish_reason = ''length'', use_better_model = False\<rparr> ''Q'' = \<lparr>prompt = ''Q'', model = ''pro'', accumulated = [], finish_reason = [], use_better_model = True\<rparr>"
    by simp
  from t2 e2 have p2: "prepare_retry \<lparr>config_model = ''flash'', config_better_model = Some ''pro''\<rparr> \<lparr>prompt = ''Q'', model = ''pro'', accumulated = ''partial'', finish_reason = ''length'', use_better_model = True\<rparr> ''Q'' = \<lparr>prompt = build_continue_prompt ''Q'' ''partial'', model = ''pro'', accumulated = ''partial'', finish_reason = [], use_better_model = True\<rparr>"
    by simp
  note r = t1 [THEN conjunct2, THEN conjunct2, THEN conjunct2, THEN mp, OF h]
  from r [THEN conjunct1, THEN spec, of 0] have c: "[(''Q'', ''flash''), (''Q'', ''pro''), (build_continue_prompt ''Q'' ''partial'', ''pro'')] ! Suc 0 = (''Q'', ''pro'')"
    by (simp add: p1)
  from r [THEN conjunct2, THEN spec, of 1]
  have n: "\<not> escalation_available \<lparr>config_model = ''flash'', config_better_model = Some ''pro''\<rparr> ([\<lparr>prompt = ''Q'', model = ''flash'', accumulated = ''partial'', finish_reason = ''length'', use_better_model = False\<rparr>,
        \<lparr>prompt = ''Q'', model = ''pro'', accumulated = ''partial'', finish_reason = ''length'', use_better_model = True\<rparr>,
        \<lparr>prompt = build_continue_prompt ''Q'' ''partial'', model = ''pro'', accumulated = ''partialpartial'', finish_reason = ''length'', use_better_model = True\<rparr>] ! 1)"
    by simp
  from e1 p1 e2 p2 h c n show ?thesis by (intro conjI)
qed

section \<open>Properties of the analysis job client\<close>

lemma poll_loop_running:
  "(\<forall>j<k. still_running (get (n + j)) \<and>
           ((\<lambda>e. e + interval) ^^ j) elapsed < max_wait) \<Longrightarrow>
   poll_loop get interval max_wait elapsed n =
   poll_loop get interval max_wait (((\<lambda>e. e + interval) ^^ k) elapsed) (n + k)"
proof (induction k arbitrary: elapsed n)
  case 0
  then show ?case by simp
next
  case (Suc k elapsed n)
  from Suc.prems have now: "elapsed < max_wait" and run: "still_running (get n)"
    by (auto dest: spec [of _ 0])
  have later: "\<forall>j<k. still_running (get (Suc n + j)) \<and>
                 ((\<lambda>e. e + interval) ^^ j) (elapsed + interval) < max_wait"
  proof (intro allI impI)
    fix j assume "j < k"
    then have "Suc j < Suc k" by simp
    with Suc.prems have "still_running (get (n + Suc j)) \<and>
                 ((\<lambda>e. e + interval) ^^ Suc j) elapsed < max_wait"
      by blast
    then show "still_running (get (Suc n + j)) \<and>
                 ((\<lambda>e. e + interval) ^^ j) (elapsed + interval) < max_wait"
      by (simp del: funpow.simps add: funpow_Suc_right)
  qed
  have "poll_loop get interval max_wait elapsed n =
        poll_loop get interval max_wait (elapsed + interval) (Suc n)"
    using now run
    by (subst poll_loop.simps) (auto simp: still_running_def split: sum.splits json.splits)
  also have "\<dots> = poll_loop get interval max_wait
                     (((\<lambda>e. e + interval) ^^ k) (elapsed + interval)) (Suc n + k)"
    by (rule Suc.IH [OF later])
  finally show ?case by (simp del: funpow.simps add: funpow_Suc_right)
qed

lemma poll_job_running:
  "(\<forall>j<k. still_running (get j) \<and> elapsed_after interval j < max_wait) \<Longrightarrow>
   poll_job get interval max_wait =
   poll_loop get interval max_wait (elapsed_after interval k) k"
  using poll_loop_running [of k get 0 interval 0 max_wait]
  by (simp add: poll_job_def elapsed_after_def)

lemma job_status_running:
  "job_status reply = JStr ''RUNNING'' \<Longrightarrow> still_running reply"
  by (auto simp: job_status_def still_running_def split: sum.splits json.splits)

text \<open>
  Claim C4. Let the submission be accepted with a job identifier, and let the client
  make its status requests while \<open>elapsed < max_wait_seconds\<close> holds. If the statuses it
  observes are \<open>RUNNING\<close>, \<open>RUNNING\<close>, \<open>COMPLETED\<close>, \<open>submit_job\<close> returns the
  \<open>result\<close> field of the third payload (an empty dictionary if it has none), after three
  requests. If the first \<open>k\<close> statuses are not terminal and the next one is \<open>FAILED\<close>,
  it raises \<open>AnalysisError\<close> with the message "Analysis job failed: " followed by the
  payload's \<open>error\<close>, after \<open>k + 1\<close> requests and no more. If the first \<open>m\<close> statuses
  are not terminal and the elapsed time after \<open>m\<close> rounds of sleeping is no longer below
  \<open>max_wait_seconds\<close>, it raises the \<open>AnalysisError\<close> "Timed out waiting for analysis
  result" after \<open>m\<close> requests. In each case the call does return.
\<close>

theorem submit_job_poll_outcomes:
  assumes "post = Inr (JObj accepted)" and "map_of accepted ''jobId'' = Some job_id"
  shows
   "(job_status (get job_id 0) = JStr ''RUNNING'' \<and>
     job_status (get job_id 1) = JStr ''RUNNING'' \<and>
     get job_id 2 = Inr (JObj completed) \<and>
     dict_get completed ''status'' = JStr ''COMPLETED'' \<and>
     (\<forall>j<3. elapsed_after interval j < max_wait) \<longrightarrow>
       submit_job post get interval max_wait
         = Some (Inr (dict_get_default completed ''result'' (JObj [])), 3)) \<and>
    ((\<forall>j<k. still_running (get job_id j)) \<and>
     (\<forall>j\<le>k. elapsed_after interval j < max_wait) \<and>
     get job_id k = Inr (JObj failed) \<and>
     dict_get failed ''status'' = JStr ''FAILED'' \<longrightarrow>
       submit_job post get interval max_wait
         = Some (Inl (AnalysisError ''Analysis job failed: '' (Some (dict_get failed ''error''))),
                 Suc k)) \<and>
    ((\<forall>j<m. still_running (get job_id j) \<and> elapsed_after interval j < max_wait) \<and>
     \<not> elapsed_after interval m < max_wait \<longrightarrow>
       submit_job post get interval max_wait
         = Some (Inl (AnalysisError ''Timed out waiting for analysis result'' None), m))"
proof -
  have sub: "submit_job post get interval max_wait = poll_job (get job_id) interval max_wait"
    using assms by (simp add: submit_job_def)
  have a: "submit_job post get interval max_wait
         = Some (Inr (dict_get_default completed ''result'' (JObj [])), 3)"
    if h: "job_status (get job_id 0) = JStr ''RUNNING''"
      "job_status (get job_id 1) = JStr ''RUNNING''"
      "get job_id 2 = Inr (JObj completed)"
      "dict_get completed ''status'' = JStr ''COMPLETED''"
      "\<forall>j<3. elapsed_after interval j < max_wait"
  proof -
    have run: "\<forall>j<2. still_running (get job_id j) \<and> elapsed_after interval j < max_wait"
    proof (intro allI impI)
      fix j :: nat assume "j < 2"
      then have "j = 0 \<or> j = 1" by auto
      then have "still_running (get job_id j)"
        using h(1,2) job_status_running by auto
      moreover have "elapsed_after interval j < max_wait"
        using h(5) \<open>j < 2\<close> by simp
      ultimately show "still_running (get job_id j) \<and> elapsed_after interval j < max_wait" ..
    qed
    have now: "elapsed_after interval 2 < max_wait" using h(5) by simp
    have "poll_job (get job_id) interval max_wait
            = poll_loop (get job_id) interval max_wait (elapsed_after interval 2) 2"
      by (rule poll_job_running [OF run])
    also have "\<dots> = Some (Inr (dict_get_default completed ''result'' (JObj [])), Suc 2)"
      using now h(3,4) by (subst poll_loop.simps) simp
    finally show ?thesis by (simp add: sub numeral_3_eq_3)
  qed
  have b: "submit_job post get interval max_wait
         = Some (Inl (AnalysisError ''Analysis job failed: '' (Some (dict_get failed ''error''))),
                 Suc k)"
    if h: "\<forall>j<k. still_running (get job_id j)"
      "\<forall>j\<le>k. elapsed_after interval j < max_wait"
      "get job_id k = Inr (JObj failed)"
      "dict_get failed ''status'' = JStr ''FAILED''"
  proof -
    have run: "\<forall>j<k. still_running (get job_id j) \<and> elapsed_after interval j < max_wait"
      using h(1,2) by simp
    have now: "elapsed_after interval k < max_wait" using h(2) by simp
    have "poll_job (get job_id) interval max_wait
            = poll_loop (get job_id) interval max_wait (elapsed_after interval k) k"
      by (rule poll_job_running [OF run])
    also have "\<dots> = Some (Inl (AnalysisError ''Analysis job failed: ''
                                  (Some (dict_get failed ''error''))), Suc k)"
      using now h(3,4) by (subst poll_loop.simps) simp
    finally show ?thesis by (simp add: sub)
  qed
  have c: "submit_job post get interval max_wait
         = Some (Inl (AnalysisError ''Timed out waiting for analysis result'' None), m)"
    if h: "\<forall>j<m. still_running (get job_id j) \<and> elapsed_after interval j < max_wait"
      "\<not> elapsed_after interval m < max_wait"
  proof -
    have "poll_job (get job_id) interval max_wait
            = poll_loop (get job_id) interval max_wait (elapsed_after interval m) m"
      by (rule poll_job_running [OF h(1)])
    also have "\<dots> = Some (Inl (AnalysisError ''Timed out waiting for analysis result'' None), m)"
      using h(2) by (subst poll_loop.simps) simp
    finally show ?thesis by (simp add: sub)
  qed
  show ?thesis
    using a b c by blast
qed

lemma elapsed_after_int: "elapsed_after (i::int) k = int k * i"
  by (induction k) (simp_all add: elapsed_after_def algebra_simps)

theorem submit_job_poll_outcomes_witness:
  "submit_job (Inr (JObj [(''jobId'', JStr ''job-1'')])) (\<lambda>job_id n. if n < 2 then Inr (JObj [(''status'', JStr ''RUNNING'')]) else Inr (JObj [(''status'', JStr ''COMPLETED''), (''result'', JObj [(''cardinality'', JInt 3)])])) (2::int) 120 = Some (Inr (JObj [(''cardinality'', JInt 3)]), 3) \<and>
   submit_job (Inr (JObj [(''jobId'', JStr ''job-1'')])) (\<lambda>job_id n. if n < 1 then Inr (JObj [(''status'', JStr ''RUNNING'')]) else Inr (JObj [(''status'', JStr ''FAILED''), (''error'', JStr ''solver crashed'')])) (2::int) 120 = Some (Inl (AnalysisError ''Analysis job failed: '' (Some (JStr ''solver crashed''))), 2) \<and>
   submit_job (Inr (JObj [(''jobId'', JStr ''job-1'')])) (\<lambda>job_id n. Inr (JObj [(''status'', JStr ''RUNNING'')])) (2::int) 4 = Some (Inl (AnalysisError ''Timed out waiting for analysis result'' None), 2)"
proof -
  have j: "map_of [(''jobId'', JStr ''job-1'')] ''jobId'' = Some (JStr ''job-1'')" by simp
  note t = submit_job_poll_outcomes [OF refl j]
  have a: "submit_job (Inr (JObj [(''jobId'', JStr ''job-1'')])) (\<lambda>job_id n. if n < 2 then Inr (JObj [(''status'', JStr ''RUNNING'')]) else Inr (JObj [(''status'', JStr ''COMPLETED''), (''result'', JObj [(''cardinality'', JInt 3)])])) (2::int) 120 = Some (Inr (JObj [(''cardinality'', JInt 3)]), 3)"
    using t [of "(\<lambda>job_id n. if n < 2 then Inr (JObj [(''status'', JStr ''RUNNING'')]) else Inr (JObj [(''status'', JStr ''COMPLETED''), (''result'', JObj [(''cardinality'', JInt 3)])]))" "[(''status'', JStr ''COMPLETED''), (''result'', JObj [(''cardinality'', JInt 3)])]" "2::int" 120, THEN conjunct1]
    by (simp add: job_status_def dict_get_def dict_get_default_def elapsed_after_int)
  have b: "submit_job (Inr (JObj [(''jobId'', JStr ''job-1'')])) (\<lambda>job_id n. if n < 1 then Inr (JObj [(''status'', JStr ''RUNNING'')]) else Inr (JObj [(''status'', JStr ''FAILED''), (''error'', JStr ''solver crashed'')])) (2::int) 120 = Some (Inl (AnalysisError ''Analysis job failed: '' (Some (JStr ''solver crashed''))), 2)"
    using t [of "(\<lambda>job_id n. if n < 1 then Inr (JObj [(''status'', JStr ''RUNNING'')]) else Inr (JObj [(''status'', JStr ''FAILED''), (''error'', JStr ''solver crashed'')]))" _ "2::int" 120 1 "[(''status'', JStr ''FAILED''), (''error'', JStr ''solver crashed'')]", THEN conjunct2, THEN conjunct1]
    by (simp add: still_running_def dict_get_def elapsed_after_int)
  have c: "submit_job (Inr (JObj [(''jobId'', JStr ''job-1'')])) (\<lambda>job_id n. Inr (JObj [(''status'', JStr ''RUNNING'')])) (2::int) 4 = Some (Inl (AnalysisError ''Timed out waiting for analysis result'' None), 2)"
    using t [of "(\<lambda>job_id n. Inr (JObj [(''status'', JStr ''RUNNING'')]))" _ "2::int" 4 _ _ 2, THEN conjunct2, THEN conjunct2]
    by (simp add: still_running_def dict_get_def elapsed_after_int less_Suc_eq numeral_2_eq_2)
  from a b c show ?thesis by (intro conjI)
qed

end
